theory Spec2Isabelle
  imports Main "HOL-Library.Product_Lexorder"
begin

section \<open>Shared data model of the viewsets\<close>

text \<open>
  Primary keys are UUIDs in the program; only their identity matters here, so they are
  natural numbers. JSON values (\<open>repo_config\<close>) are kept as association lists.
\<close>

type_synonym pk = nat

type_synonym json = "(string \<times> string) list"

text \<open>
  The exceptions the modelled code paths can raise. \<open>ValidationError\<close> is
  \<open>rest_framework.serializers.ValidationError\<close> with its detail message.
\<close>

datatype error =
    ValidationError string
  | NotFoundError string
  | AttributeError
  | DoesNotExist
  | KeyError string
  | ConflictError string

text \<open>\<open>SYNC_POLICIES\<close> of \<open>pulp_rpm.app.constants\<close>.\<close>

datatype sync_policy = ADDITIVE | MIRROR_COMPLETE | MIRROR_CONTENT_ONLY

record rpm_remote =
  remote_pk :: pk

record repository_version =
  version_pk :: pk
  number :: int
  repository :: pk

record rpm_repository =
  repository_pk :: pk
  name :: string
  remote :: "rpm_remote option"
  retain_package_versions :: int
  autopublish :: bool
  checksum_type :: "string option"
  repo_config :: json
  compression_type :: "string option"
  metadata_signing_service :: "pk option"
  versions :: "repository_version list"

text \<open>A resource a task can reserve: a remote or a repository, by identity.\<close>

datatype resource = Remote_resource pk | Repository_resource pk

record sync_kwargs =
  kw_sync_policy :: sync_policy
  kw_remote_pk :: pk
  kw_repository_pk :: pk
  kw_skip_types :: "string list option"
  kw_optimize :: "bool option"

text \<open>
  The keyword arguments of the publish task. The key \<open>checkpoint\<close> is only set when the
  request asked for a checkpoint: \<open>None\<close> is the absent key.
\<close>

record publish_kwargs =
  kw_repository_version_pk :: pk
  kw_metadata_signing_service :: "pk option"
  kw_checksum_type :: "string option"
  kw_repo_config :: json
  kw_compression_type :: "string option"
  kw_checkpoint :: "bool option"

text \<open>One entry of the processed copy configuration (hrefs replaced by primary keys).\<close>

record copy_plan_entry =
  r_source_repo_version :: pk
  r_dest_repo :: pk
  r_dest_base_version :: "pk option"
  r_content :: "pk list option"

datatype task_func =
    Synchronize sync_kwargs
  | Publish publish_kwargs
  | Copy_content "copy_plan_entry list" bool

record task =
  func :: task_func
  shared_resources :: "resource list"
  exclusive_resources :: "resource list"

text \<open>
  Modelled from the spec: \<open>pulpcore.plugin.tasking.dispatch\<close> is not part of these
  sources. It records the task together with the reservations it declares and returns a
  handle to it; the state is the list of tasks dispatched so far.
\<close>

definition dispatch :: "task \<Rightarrow> task list \<Rightarrow> nat \<times> task list" where
  "dispatch t queue = (length queue, queue @ [t])"

section \<open>Sync trigger: \<open>RpmRepositoryViewSet.sync\<close>\<close>

text \<open>
  The validated request data. \<open>None\<close> is what \<open>validated_data.get(key)\<close> returns for
  a key the request did not supply.
\<close>

record sync_data =
  vd_remote :: "rpm_remote option"
  vd_mirror :: "bool option"
  vd_sync_policy :: "sync_policy option"
  vd_skip_types :: "string list option"
  vd_optimize :: "bool option"

definition quoted :: "string \<Rightarrow> string" where
  "quoted s = CHR 0x27 # s @ [CHR 0x27]"

definition mirror_err_msg :: "string \<Rightarrow> string" where
  "mirror_err_msg what =
     ''Cannot use '' @ quoted what @ '' in combination with a '' @ quoted ''mirror_complete''
       @ '' or '' @ quoted ''mirror_content_only'' @ '' sync policy.''"

definition mirror_complete_err_msg :: "string \<Rightarrow> string" where
  "mirror_complete_err_msg what =
     ''Cannot use '' @ quoted what @ '' in combination with a '' @ quoted ''mirror_complete''
       @ '' sync policy.''"

text \<open>
  Lines 217-218: \<open>if not sync_policy: sync_policy = ADDITIVE if not mirror else
  MIRROR_COMPLETE\<close>. \<open>not mirror\<close> holds for an absent flag and for \<open>False\<close>.
\<close>

definition effective_sync_policy :: "sync_data \<Rightarrow> sync_policy" where
  "effective_sync_policy vd =
     (case vd_sync_policy vd of
        Some p \<Rightarrow> p
      | None \<Rightarrow> (if vd_mirror vd = Some True then MIRROR_COMPLETE else ADDITIVE))"

text \<open>Python truthiness of an optional list: \<open>None\<close> and \<open>[]\<close> are false.\<close>

definition truthy_list :: "'a list option \<Rightarrow> bool" where
  "truthy_list xs = (case xs of None \<Rightarrow> False | Some ys \<Rightarrow> ys \<noteq> [])"

text \<open>
  The body of \<open>sync\<close> after the serializer has validated the request. The result is the
  raised error or the handle of the dispatched task, together with the dispatcher's state.
  The arguments of \<open>dispatch\<close> are evaluated before the call, so a missing remote
  (\<open>remote.pk\<close> on \<open>None\<close>) raises before anything is dispatched.
\<close>

definition sync :: "rpm_repository \<Rightarrow> sync_data \<Rightarrow> task list \<Rightarrow> (error + nat) \<times> task list" where
  "sync repo vd queue =
     (let rem = (case vd_remote vd of None \<Rightarrow> remote repo | Some r \<Rightarrow> Some r);
          skip_types = vd_skip_types vd;
          optimize = vd_optimize vd;
          sync_policy = effective_sync_policy vd
      in if (sync_policy = MIRROR_COMPLETE \<or> sync_policy = MIRROR_CONTENT_ONLY)
            \<and> retain_package_versions repo > 0
         then (Inl (ValidationError (mirror_err_msg ''retain_package_versions'')), queue)
         else if sync_policy = MIRROR_COMPLETE \<and> autopublish repo
         then (Inl (ValidationError (mirror_complete_err_msg ''autopublish'')), queue)
         else if sync_policy = MIRROR_COMPLETE \<and> truthy_list skip_types
         then (Inl (ValidationError (mirror_complete_err_msg ''skip_types'')), queue)
         else (case rem of
                 None \<Rightarrow> (Inl AttributeError, queue)
               | Some r \<Rightarrow>
                   (case dispatch
                           \<lparr>func = Synchronize
                              \<lparr>kw_sync_policy = sync_policy,
                               kw_remote_pk = remote_pk r,
                               kw_repository_pk = repository_pk repo,
                               kw_skip_types = skip_types,
                               kw_optimize = optimize\<rparr>,
                            shared_resources = [Remote_resource (remote_pk r)],
                            exclusive_resources = [Repository_resource (repository_pk repo)]\<rparr>
                           queue of
                      (handle, queue') \<Rightarrow> (Inr handle, queue'))))"

section \<open>Publish trigger: \<open>RpmPublicationViewSet.create\<close>\<close>

text \<open>
  The validated request data of a publish request. For the three settings read with
  \<open>validated_data.get(key, default)\<close> the outer \<open>None\<close> is the absent key; a supplied
  checksum or compression type may itself be null.
\<close>

record publication_data =
  vd_repository_version :: "repository_version option"
  vd_checkpoint :: "bool option"
  vd_checksum_type :: "string option option"
  vd_repo_config :: "json option"
  vd_compression_type :: "string option option"

text \<open>\<open>dict.get(key, default)\<close>.\<close>

definition get_default :: "'a option \<Rightarrow> 'a \<Rightarrow> 'a" where
  "get_default supplied dflt = (case supplied of None \<Rightarrow> dflt | Some v \<Rightarrow> v)"

text \<open>
  The body of \<open>create\<close> after validation. \<open>repos\<close> is the table behind
  \<open>RpmRepository.objects\<close>. The task is dispatched with \<open>shared_resources\<close> only.
\<close>

definition RpmPublicationViewSet_create ::
  "(pk \<rightharpoonup> rpm_repository) \<Rightarrow> publication_data \<Rightarrow> task list \<Rightarrow> (error + nat) \<times> task list" where
  "RpmPublicationViewSet_create repos vd queue =
     (case vd_repository_version vd of
        None \<Rightarrow> (Inl AttributeError, queue)
      | Some rv \<Rightarrow>
          (case repos (repository rv) of
             None \<Rightarrow> (Inl DoesNotExist, queue)
           | Some repo \<Rightarrow>
               (let checkpoint = vd_checkpoint vd;
                    checksum = get_default (vd_checksum_type vd) (checksum_type repo);
                    config = get_default (vd_repo_config vd) (repo_config repo);
                    compression = get_default (vd_compression_type vd) (compression_type repo);
                    signing_service_pk = metadata_signing_service repo;
                    kwargs = \<lparr>kw_repository_version_pk = version_pk rv,
                              kw_metadata_signing_service = signing_service_pk,
                              kw_checksum_type = checksum,
                              kw_repo_config = config,
                              kw_compression_type = compression,
                              kw_checkpoint = (if checkpoint = Some True then Some True else None)\<rparr>
                in (case dispatch
                           \<lparr>func = Publish kwargs,
                            shared_resources = [Repository_resource (repository rv)],
                            exclusive_resources = []\<rparr>
                           queue of
                      (handle, queue') \<Rightarrow> (Inr handle, queue')))))"

section \<open>Copy trigger: \<open>CopyViewSet\<close>\<close>

text \<open>
  One entry of the request's \<open>config\<close>. \<open>dest_base_version\<close> is \<open>None\<close> when the key is
  not in the entry, \<open>content\<close> when \<open>entry.get("content")\<close> is \<open>None\<close>.
\<close>

record copy_entry =
  source_repo_version :: string
  dest_repo :: string
  dest_base_version :: "int option"
  content :: "string list option"

record copy_data =
  vd_dependency_solving :: bool
  vd_config :: "copy_entry list"

text \<open>What the hrefs of a request refer to: the tables the resolution functions read.\<close>

record hrefs =
  version_of_href :: "string \<rightharpoonup> repository_version"
  repository_of_href :: "string \<rightharpoonup> rpm_repository"
  pk_of_href :: "string \<rightharpoonup> pk"

text \<open>
  Modelled from the spec: \<open>NamedModelViewSet.get_resource\<close> and \<open>extract_pk\<close> belong to
  pulpcore and are not part of these sources. An unresolvable reference fails with a
  not-found error naming the offending reference.
\<close>

definition get_resource :: "(string \<rightharpoonup> 'a) \<Rightarrow> string \<Rightarrow> error + 'a" where
  "get_resource tbl uri = (case tbl uri of None \<Rightarrow> Inl (NotFoundError uri) | Some x \<Rightarrow> Inr x)"

definition extract_pk :: "(string \<rightharpoonup> pk) \<Rightarrow> string \<Rightarrow> error + pk" where
  "extract_pk tbl uri = (case tbl uri of None \<Rightarrow> Inl (NotFoundError uri) | Some k \<Rightarrow> Inr k)"

text \<open>Python's \<open>str\<close> of an integer, as \<open>str.format\<close> prints the version number.\<close>

fun str_nat :: "nat \<Rightarrow> string" where
  "str_nat n =
     (if n < 10 then [''0123456789'' ! n]
      else str_nat (n div 10) @ [''0123456789'' ! (n mod 10)])"

definition str_int :: "int \<Rightarrow> string" where
  "str_int i = (if i < 0 then CHR ''-'' # str_nat (nat (- i)) else str_nat (nat i))"

definition version_missing_message :: "int \<Rightarrow> string \<Rightarrow> string" where
  "version_missing_message v repo_name =
     ''Version '' @ str_int v @ '' does not exist for repository '' @ quoted repo_name @ ''.''"

text \<open>The loop \<open>for c in entry["content"]: r["content"].append(extract_pk(c))\<close>.\<close>

fun extract_pks :: "(string \<rightharpoonup> pk) \<Rightarrow> string list \<Rightarrow> error + pk list" where
  "extract_pks tbl [] = Inr []"
| "extract_pks tbl (c # cs) =
     (case extract_pk tbl c of
        Inl e \<Rightarrow> Inl e
      | Inr k \<Rightarrow> (case extract_pks tbl cs of Inl e \<Rightarrow> Inl e | Inr ks \<Rightarrow> Inr (k # ks)))"

text \<open>
  \<open>dest_repo.versions.get(number=n).pk\<close>, with \<open>RepositoryVersion.DoesNotExist\<close> turned
  into the validation error of lines 734-738.
\<close>

definition dest_base_version_pk :: "rpm_repository \<Rightarrow> int \<Rightarrow> error + pk" where
  "dest_base_version_pk dest n =
     (case find (\<lambda>v. number v = n) (versions dest) of
        None \<Rightarrow> Inl (ValidationError (version_missing_message n (name dest)))
      | Some v \<Rightarrow> Inr (version_pk v))"

text \<open>
  One iteration of the loop of \<open>_process_config\<close>: the processed entry, the source
  repository (to be shared) and the destination repository (to be exclusive), or the
  first error raised.
\<close>

definition process_entry :: "hrefs \<Rightarrow> copy_entry \<Rightarrow> error + (copy_plan_entry \<times> resource \<times> resource)" where
  "process_entry h entry =
     (case get_resource (version_of_href h) (source_repo_version entry) of
        Inl e \<Rightarrow> Inl e
      | Inr source_version \<Rightarrow>
     (case get_resource (repository_of_href h) (dest_repo entry) of
        Inl e \<Rightarrow> Inl e
      | Inr dest \<Rightarrow>
     (case (case dest_base_version entry of
              None \<Rightarrow> Inr None
            | Some n \<Rightarrow> (case dest_base_version_pk dest n of
                           Inl e \<Rightarrow> Inl e | Inr k \<Rightarrow> Inr (Some k))) of
        Inl e \<Rightarrow> Inl e
      | Inr base \<Rightarrow>
     (case (case content entry of
              None \<Rightarrow> Inr None
            | Some cs \<Rightarrow> (case extract_pks (pk_of_href h) cs of
                            Inl e \<Rightarrow> Inl e | Inr ks \<Rightarrow> Inr (Some ks))) of
        Inl e \<Rightarrow> Inl e
      | Inr cont \<Rightarrow>
          Inr (\<lparr>r_source_repo_version = version_pk source_version,
                r_dest_repo = repository_pk dest,
                r_dest_base_version = base,
                r_content = cont\<rparr>,
               Repository_resource (repository source_version),
               Repository_resource (repository_pk dest))))))"

text \<open>The loop over the entries, with the three lists it appends to.\<close>

fun process_config_loop ::
  "hrefs \<Rightarrow> copy_entry list \<Rightarrow> copy_plan_entry list \<times> resource list \<times> resource list
     \<Rightarrow> error + (copy_plan_entry list \<times> resource list \<times> resource list)" where
  "process_config_loop h [] acc = Inr acc"
| "process_config_loop h (entry # entries) (result, shared_repos, exclusive_repos) =
     (case process_entry h entry of
        Inl e \<Rightarrow> Inl e
      | Inr (r, src, dst) \<Rightarrow>
          process_config_loop h entries
            (result @ [r], shared_repos @ [src], exclusive_repos @ [dst]))"

definition process_config ::
  "hrefs \<Rightarrow> copy_entry list \<Rightarrow> error + (copy_plan_entry list \<times> resource list \<times> resource list)" where
  "process_config h config = process_config_loop h config ([], [], [])"

definition CopyViewSet_create :: "hrefs \<Rightarrow> copy_data \<Rightarrow> task list \<Rightarrow> (error + nat) \<times> task list" where
  "CopyViewSet_create h vd queue =
     (case process_config h (vd_config vd) of
        Inl e \<Rightarrow> (Inl e, queue)
      | Inr (config, shared_repos, exclusive_repos) \<Rightarrow>
          (case dispatch
                  \<lparr>func = Copy_content config (vd_dependency_solving vd),
                   shared_resources = shared_repos,
                   exclusive_resources = exclusive_repos\<rparr>
                  queue of
             (handle, queue') \<Rightarrow> (Inr handle, queue')))"

text \<open>A request is rejected when it raises a validation error.\<close>

definition is_validation_error :: "error + 'a \<Rightarrow> bool" where
  "is_validation_error r = (case r of Inl (ValidationError m) \<Rightarrow> True | _ \<Rightarrow> False)"

section \<open>Module metadata content: \<open>serializers/modulemd.py\<close>\<close>

text \<open>
  The validated data of \<open>ModulemdSerializer\<close>. \<open>packages\<close> is not required, so the key may
  be absent (\<open>None\<close>); the JSON fields are kept as text.
\<close>

record modulemd_data =
  mvd_name :: string
  mvd_stream :: string
  mvd_version :: string
  mvd_static_context :: "bool option"
  mvd_context :: string
  mvd_arch :: string
  mvd_artifacts :: string
  mvd_dependencies :: string
  mvd_description :: string
  mvd_packages :: "pk list option"
  mvd_profiles :: string
  mvd_snippet :: string

text \<open>A stored \<open>Modulemd\<close>: the validated fields, the computed digest and the packages.\<close>

record modulemd =
  m_name :: string
  m_stream :: string
  m_version :: string
  m_static_context :: "bool option"
  m_context :: string
  m_arch :: string
  m_artifacts :: string
  m_dependencies :: string
  m_description :: string
  m_profiles :: string
  m_snippet :: string
  m_digest :: string
  m_packages :: "pk list"

record modulemd_defaults_data =
  dvd_module :: string
  dvd_stream :: string
  dvd_profiles :: string
  dvd_snippet :: string

record modulemd_defaults =
  d_module :: string
  d_stream :: string
  d_profiles :: string
  d_snippet :: string
  d_digest :: string

text \<open>
  Modelled from the spec: the underlying store and the models' uniqueness declarations
  are not part of these sources. The store holds the units created so far and refuses a
  unit whose unique identity is already stored with a \<open>ConflictError\<close>; its message is
  the text the tests look for in the failed task. A modulemd-defaults is identified by
  its digest (\<open>test_create_modulemd_defaults\<close>: the module is not part of the key). A
  modulemd is identified by its name, stream, version, context and arch together with its
  digest (\<open>test_create_modulemds\<close>: the repeated request is refused, the request that
  differs in the snippet is accepted).
\<close>

record content_store =
  stored_modulemds :: "modulemd list"
  stored_modulemd_defaults :: "modulemd_defaults list"

definition duplicate_key_message :: string where
  "duplicate_key_message = ''duplicate key value violates unique constraint''"

definition modulemd_key ::
  "modulemd \<Rightarrow> string \<times> string \<times> string \<times> string \<times> string \<times> string" where
  "modulemd_key u = (m_name u, m_stream u, m_version u, m_context u, m_arch u, m_digest u)"

definition insert_modulemd :: "modulemd \<Rightarrow> content_store \<Rightarrow> (error + modulemd) \<times> content_store" where
  "insert_modulemd u st =
     (if modulemd_key u \<in> set (map modulemd_key (stored_modulemds st))
      then (Inl (ConflictError duplicate_key_message), st)
      else (Inr u, st\<lparr>stored_modulemds := stored_modulemds st @ [u]\<rparr>))"

definition insert_modulemd_defaults ::
  "modulemd_defaults \<Rightarrow> content_store \<Rightarrow> (error + modulemd_defaults) \<times> content_store" where
  "insert_modulemd_defaults u st =
     (if d_digest u \<in> set (map d_digest (stored_modulemd_defaults st))
      then (Inl (ConflictError duplicate_key_message), st)
      else (Inr u, st\<lparr>stored_modulemd_defaults := stored_modulemd_defaults st @ [u]\<rparr>))"

text \<open>
  \<open>modulemd.packages.set(packages)\<close> on the unit just created.
\<close>

definition set_packages :: "modulemd \<Rightarrow> pk list \<Rightarrow> content_store \<Rightarrow> modulemd \<times> content_store" where
  "set_packages u ps st =
     (u\<lparr>m_packages := ps\<rparr>,
      st\<lparr>stored_modulemds :=
           map (\<lambda>x. if modulemd_key x = modulemd_key u then x\<lparr>m_packages := ps\<rparr> else x)
             (stored_modulemds st)\<rparr>)"

text \<open>
  The unit \<open>ModulemdSerializer.create\<close> hands to the store: the validated data with
  \<open>digest = hashlib.sha256(snippet.encode()).hexdigest()\<close> added and \<open>packages\<close> popped.
  The hash function is the library's; it is the parameter \<open>sha256\<close>.
\<close>

definition modulemd_unit :: "(string \<Rightarrow> string) \<Rightarrow> modulemd_data \<Rightarrow> modulemd" where
  "modulemd_unit sha256 vd =
     (let snippet = mvd_snippet vd
      in \<lparr>m_name = mvd_name vd, m_stream = mvd_stream vd, m_version = mvd_version vd,
          m_static_context = mvd_static_context vd, m_context = mvd_context vd,
          m_arch = mvd_arch vd, m_artifacts = mvd_artifacts vd,
          m_dependencies = mvd_dependencies vd, m_description = mvd_description vd,
          m_profiles = mvd_profiles vd, m_snippet = snippet,
          m_digest = sha256 snippet, m_packages = []\<rparr>)"

text \<open>
  \<open>ModulemdSerializer.create\<close>. \<open>validated_data.pop("packages")\<close> raises \<open>KeyError\<close> when
  the request supplied no packages, before the store is asked for anything.
\<close>

definition ModulemdSerializer_create ::
  "(string \<Rightarrow> string) \<Rightarrow> modulemd_data \<Rightarrow> content_store \<Rightarrow> (error + modulemd) \<times> content_store" where
  "ModulemdSerializer_create sha256 vd st =
     (let unit = modulemd_unit sha256 vd
      in case mvd_packages vd of
           None \<Rightarrow> (Inl (KeyError ''packages''), st)
         | Some packages \<Rightarrow>
             (case insert_modulemd unit st of
                (Inl e, st') \<Rightarrow> (Inl e, st')
              | (Inr modulemd, st') \<Rightarrow>
                  (case set_packages modulemd packages st' of
                     (modulemd', st'') \<Rightarrow> (Inr modulemd', st''))))"

definition modulemd_defaults_unit ::
  "(string \<Rightarrow> string) \<Rightarrow> modulemd_defaults_data \<Rightarrow> modulemd_defaults" where
  "modulemd_defaults_unit sha256 vd =
     (let snippet = dvd_snippet vd
      in \<lparr>d_module = dvd_module vd, d_stream = dvd_stream vd, d_profiles = dvd_profiles vd,
          d_snippet = snippet, d_digest = sha256 snippet\<rparr>)"

text \<open>\<open>ModulemdDefaultsSerializer.create\<close>.\<close>

definition ModulemdDefaultsSerializer_create ::
  "(string \<Rightarrow> string) \<Rightarrow> modulemd_defaults_data \<Rightarrow> content_store
     \<Rightarrow> (error + modulemd_defaults) \<times> content_store" where
  "ModulemdDefaultsSerializer_create sha256 vd st =
     insert_modulemd_defaults (modulemd_defaults_unit sha256 vd) st"

text \<open>
  Two requests for a modulemd agree in the fields that identify it besides the digest.
\<close>

definition same_identifying_fields :: "modulemd_data \<Rightarrow> modulemd_data \<Rightarrow> bool" where
  "same_identifying_fields a b =
     (mvd_name b = mvd_name a \<and> mvd_stream b = mvd_stream a \<and> mvd_version b = mvd_version a
      \<and> mvd_context b = mvd_context a \<and> mvd_arch b = mvd_arch a)"

section \<open>Checkpoint distributions\<close>

text \<open>
  Modelled from the spec: the Checkpoint Resolver is the content handler of pulpcore and
  is not part of these sources, which hold only its functional tests. The definitions of
  this section follow section 4.4 of the spec.

  A timestamp is a calendar date and a time of day to the second, in UTC: year, month,
  day, hour, minute, second. Timestamps are compared field by field from the year down,
  which is the order of the instants they denote.
\<close>

type_synonym timestamp = "nat \<times> nat \<times> nat \<times> nat \<times> nat \<times> nat"

definition leap_year :: "nat \<Rightarrow> bool" where
  "leap_year y = (y mod 4 = 0 \<and> (y mod 100 \<noteq> 0 \<or> y mod 400 = 0))"

definition days_in_month :: "nat \<Rightarrow> nat \<Rightarrow> nat" where
  "days_in_month y m =
     (if m = 2 then (if leap_year y then 29 else 28)
      else if m = 4 \<or> m = 6 \<or> m = 9 \<or> m = 11 then 30
      else 31)"

fun valid_timestamp :: "timestamp \<Rightarrow> bool" where
  "valid_timestamp (y, mo, d, h, mi, s) =
     (1 \<le> y \<and> y \<le> 9999 \<and> 1 \<le> mo \<and> mo \<le> 12 \<and> 1 \<le> d \<and> d \<le> days_in_month y mo
      \<and> h < 24 \<and> mi < 60 \<and> s < 60)"

text \<open>The fixed format \<open>YYYYMMDDTHHMMSSZ\<close> (\<open>%Y%m%dT%H%M%SZ\<close>).\<close>

definition digit_char :: "nat \<Rightarrow> char" where
  "digit_char n = ''0123456789'' ! (n mod 10)"

definition pad2 :: "nat \<Rightarrow> string" where
  "pad2 n = [digit_char (n div 10), digit_char n]"

definition pad4 :: "nat \<Rightarrow> string" where
  "pad4 n = pad2 (n div 100) @ pad2 (n mod 100)"

fun format_timestamp :: "timestamp \<Rightarrow> string" where
  "format_timestamp (y, mo, d, h, mi, s) =
     pad4 y @ pad2 mo @ pad2 d @ ''T'' @ pad2 h @ pad2 mi @ pad2 s @ ''Z''"

definition digit_val :: "char \<Rightarrow> nat option" where
  "digit_val c = map_of (zip ''0123456789'' [0, 1, 2, 3, 4, 5, 6, 7, 8, 9]) c"

fun number_from :: "nat \<Rightarrow> string \<Rightarrow> nat option" where
  "number_from acc [] = Some acc"
| "number_from acc (c # cs) =
     (case digit_val c of None \<Rightarrow> None | Some d \<Rightarrow> number_from (10 * acc + d) cs)"

text \<open>
  Parsing accepts exactly the sixteen characters of the format, with digits in the
  numeric fields and a timestamp that exists in the calendar; everything else is a parse
  failure.
\<close>

definition parse_timestamp :: "string \<Rightarrow> timestamp option" where
  "parse_timestamp txt =
     (if length txt = 16 \<and> txt ! 8 = CHR ''T'' \<and> txt ! 15 = CHR ''Z''
      then (case (number_from 0 (take 4 txt),
                  number_from 0 (take 2 (drop 4 txt)),
                  number_from 0 (take 2 (drop 6 txt)),
                  number_from 0 (take 2 (drop 9 txt)),
                  number_from 0 (take 2 (drop 11 txt)),
                  number_from 0 (take 2 (drop 13 txt))) of
              (Some y, Some mo, Some d, Some h, Some mi, Some s) \<Rightarrow>
                 (if valid_timestamp (y, mo, d, h, mi, s) then Some (y, mo, d, h, mi, s)
                  else None)
            | _ \<Rightarrow> None)
      else None)"

record publication =
  publication_pk :: pk
  pub_repository :: pk
  created_at :: timestamp
  checkpoint :: bool

record distribution =
  base_path :: string
  dist_repository :: pk
  dist_checkpoint :: bool

text \<open>
  The resolver's state for a repository: its checkpoint publications, ordered by
  \<open>created_at\<close>.
\<close>

definition checkpoint_sequence :: "publication list \<Rightarrow> pk \<Rightarrow> publication list" where
  "checkpoint_sequence pubs repo =
     sort_key created_at (filter (\<lambda>p. checkpoint p \<and> pub_repository p = repo) pubs)"

text \<open>
  Binary search of a sorted list for the number of entries that are at most \<open>t\<close>
  (the insertion point to the right of \<open>t\<close>), between the indices \<open>lo\<close> and \<open>hi\<close>.
\<close>

function bisect_right :: "timestamp list \<Rightarrow> timestamp \<Rightarrow> nat \<Rightarrow> nat \<Rightarrow> nat" where
  "bisect_right xs t lo hi =
     (if lo < hi
      then (let mid = (lo + hi) div 2
            in if t < xs ! mid then bisect_right xs t lo mid
               else bisect_right xs t (mid + 1) hi)
      else lo)"
  by pat_completeness auto
termination
  by (relation "measure (\<lambda>(xs, t, lo, hi). hi - lo)") auto

declare bisect_right.simps [simp del]

definition latest_at_or_before :: "publication list \<Rightarrow> timestamp \<Rightarrow> publication option" where
  "latest_at_or_before seq t =
     (let i = bisect_right (map created_at seq) t 0 (length seq)
      in if i = 0 then None else Some (seq ! (i - 1)))"

datatype resolved = Serve publication | Redirect string publication | NotFound

definition canonical_url :: "distribution \<Rightarrow> publication \<Rightarrow> string" where
  "canonical_url dist p = base_path dist @ format_timestamp (created_at p) @ ''/''"

text \<open>Steps 1 to 5 of the resolver.\<close>

definition resolve :: "distribution \<Rightarrow> publication list \<Rightarrow> string \<Rightarrow> timestamp \<Rightarrow> resolved" where
  "resolve dist pubs requested_timestamp_text now =
     (case parse_timestamp requested_timestamp_text of
        None \<Rightarrow> NotFound
      | Some t \<Rightarrow>
          if now < t then NotFound
          else (case latest_at_or_before (checkpoint_sequence pubs (dist_repository dist)) t of
                  None \<Rightarrow> NotFound
                | Some p \<Rightarrow>
                    if created_at p = t then Serve p
                    else Redirect (canonical_url dist p) p))"

text \<open>
  Steps 6 and 7: the read path of a distribution. A path without its trailing slash is
  handled as the path with it; the base path lists the checkpoints, and a path one
  segment below it is resolved as a timestamp. A distribution that is not
  checkpoint-enabled serves its fixed publication, which this model leaves out.
\<close>

datatype response = Listing "string list" | Resolved resolved | Fixed_content

definition with_trailing_slash :: "string \<Rightarrow> string" where
  "with_trailing_slash p = (if p \<noteq> [] \<and> last p = CHR ''/'' then p else p @ ''/'')"

definition checkpoint_get :: "distribution \<Rightarrow> publication list \<Rightarrow> string \<Rightarrow> timestamp \<Rightarrow> response" where
  "checkpoint_get dist pubs path now =
     (if \<not> dist_checkpoint dist then Fixed_content
      else (let p = with_trailing_slash path; b = base_path dist
            in if p = b
               then Listing (map (\<lambda>c. format_timestamp (created_at c))
                              (checkpoint_sequence pubs (dist_repository dist)))
               else if take (length b) p = b
               then Resolved (resolve dist pubs (butlast (drop (length b) p)) now)
               else Resolved NotFound))"

text \<open>The checkpoint publications of the distribution's repository, as stored.\<close>

definition checkpoints_of :: "distribution \<Rightarrow> publication list \<Rightarrow> publication list" where
  "checkpoints_of dist pubs =
     filter (\<lambda>p. checkpoint p \<and> pub_repository p = dist_repository dist) pubs"

section \<open>Reservations\<close>

text \<open>
  The repository a copy entry reads from and the one it writes to, as the hrefs resolve.
\<close>

definition source_resource :: "hrefs \<Rightarrow> copy_entry \<Rightarrow> resource option" where
  "source_resource h entry =
     map_option (\<lambda>v. Repository_resource (repository v))
       (version_of_href h (source_repo_version entry))"

definition dest_resource :: "hrefs \<Rightarrow> copy_entry \<Rightarrow> resource option" where
  "dest_resource h entry =
     map_option (\<lambda>d. Repository_resource (repository_pk d))
       (repository_of_href h (dest_repo entry))"

text \<open>
  Modelled from the spec: the Resource Lock Manager is not part of these sources. An
  exclusive reservation excludes every other holder of the resource, whatever its mode;
  shared reservations of one resource may be held together. Two tasks may run at the same
  time when no resource reserved exclusively by one is reserved by the other.
\<close>

definition may_run_together :: "task \<Rightarrow> task \<Rightarrow> bool" where
  "may_run_together a b =
     (set (exclusive_resources a) \<inter> (set (shared_resources b) \<union> set (exclusive_resources b)) = {}
      \<and> set (exclusive_resources b) \<inter> (set (shared_resources a) \<union> set (exclusive_resources a)) = {})"

section \<open>Example data\<close>

definition example_remote :: rpm_remote where
  "example_remote = \<lparr>remote_pk = 7\<rparr>"

definition example_repository :: rpm_repository where
  "example_repository =
     \<lparr>repository_pk = 1, name = ''dest'', remote = Some example_remote,
      retain_package_versions = 0, autopublish = False,
      checksum_type = Some ''sha256'', repo_config = [(''gpgcheck'', ''1'')],
      compression_type = None, metadata_signing_service = None,
      versions = [\<lparr>version_pk = 10, number = 0, repository = 1\<rparr>,
                  \<lparr>version_pk = 11, number = 1, repository = 1\<rparr>]\<rparr>"

definition example_sync_data :: sync_data where
  "example_sync_data =
     \<lparr>vd_remote = None, vd_mirror = Some True, vd_sync_policy = None,
      vd_skip_types = None, vd_optimize = Some True\<rparr>"

definition example_repositories :: "pk \<rightharpoonup> rpm_repository" where
  "example_repositories = [1 \<mapsto> example_repository]"

definition example_publication_data :: publication_data where
  "example_publication_data =
     \<lparr>vd_repository_version = Some \<lparr>version_pk = 11, number = 1, repository = 1\<rparr>,
      vd_checkpoint = Some True,
      vd_checksum_type = None,
      vd_repo_config = Some [(''gpgcheck'', ''0'')],
      vd_compression_type = Some (Some ''zstd'')\<rparr>"

definition example_hrefs :: hrefs where
  "example_hrefs =
     \<lparr>version_of_href = [''/repositories/src/versions/1/'' \<mapsto>
                            \<lparr>version_pk = 21, number = 1, repository = 2\<rparr>],
      repository_of_href = [''/repositories/dest/'' \<mapsto> example_repository],
      pk_of_href = [''/content/a/'' \<mapsto> 31]\<rparr>"

definition example_copy_entry :: copy_entry where
  "example_copy_entry =
     \<lparr>source_repo_version = ''/repositories/src/versions/1/'',
      dest_repo = ''/repositories/dest/'',
      dest_base_version = Some 1,
      content = Some [''/content/a/'']\<rparr>"

definition example_copy_data :: copy_data where
  "example_copy_data = \<lparr>vd_dependency_solving = True, vd_config = [example_copy_entry]\<rparr>"

definition example_sync_task :: task where
  "example_sync_task =
     \<lparr>func = Synchronize
               \<lparr>kw_sync_policy = MIRROR_COMPLETE, kw_remote_pk = 7,
                kw_repository_pk = 1, kw_skip_types = None,
                kw_optimize = Some True\<rparr>,
      shared_resources = [Remote_resource 7],
      exclusive_resources = [Repository_resource 1]\<rparr>"

definition example_copy_task :: task where
  "example_copy_task =
     \<lparr>func = Copy_content
               [\<lparr>r_source_repo_version = 21, r_dest_repo = 1,
                 r_dest_base_version = Some 11, r_content = Some [31]\<rparr>] True,
      shared_resources = [Repository_resource 2],
      exclusive_resources = [Repository_resource 1]\<rparr>"

definition example_publish_task :: task where
  "example_publish_task =
     \<lparr>func = Publish
               \<lparr>kw_repository_version_pk = 11, kw_metadata_signing_service = None,
                kw_checksum_type = Some ''sha256'',
                kw_repo_config = [(''gpgcheck'', ''0'')],
                kw_compression_type = Some ''zstd'', kw_checkpoint = Some True\<rparr>,
      shared_resources = [Repository_resource 1],
      exclusive_resources = []\<rparr>"

definition example_unresolved_entry :: copy_entry where
  "example_unresolved_entry =
     \<lparr>source_repo_version = ''/repositories/gone/versions/1/'',
      dest_repo = ''/repositories/dest/'',
      dest_base_version = None,
      content = None\<rparr>"

definition example_missing_version_entry :: copy_entry where
  "example_missing_version_entry = example_copy_entry\<lparr>dest_base_version := Some 7\<rparr>"

definition example_hash :: "string \<Rightarrow> string" where
  "example_hash s = ''sha256:'' @ s"

definition example_store :: content_store where
  "example_store = \<lparr>stored_modulemds = [], stored_modulemd_defaults = []\<rparr>"

definition example_defaults_request :: modulemd_defaults_data where
  "example_defaults_request =
     \<lparr>dvd_module = ''squid'', dvd_stream = ''4'', dvd_profiles = ''{4: [common]}'',
      dvd_snippet = ''document: modulemd-defaults''\<rparr>"

definition example_modulemd_request :: modulemd_data where
  "example_modulemd_request =
     \<lparr>mvd_name = ''foo'', mvd_stream = ''foo'', mvd_version = ''foo'',
      mvd_static_context = None, mvd_context = ''foo'', mvd_arch = ''foo'',
      mvd_artifacts = ''[]'', mvd_dependencies = ''[]'', mvd_description = ''foo'',
      mvd_packages = Some [5], mvd_profiles = ''[]'', mvd_snippet = ''foobar''\<rparr>"

definition example_distribution :: distribution where
  "example_distribution =
     \<lparr>base_path = ''pulp/content/checkpoints/'', dist_repository = 1, dist_checkpoint = True\<rparr>"

definition example_pub :: "nat \<Rightarrow> bool \<Rightarrow> publication" where
  "example_pub n cp =
     \<lparr>publication_pk = 40 + n, pub_repository = 1, created_at = (2025, 3, 9, 12, 0, n),
      checkpoint = cp\<rparr>"

definition example_publications :: "publication list" where
  "example_publications =
     [example_pub 10 False, example_pub 11 True, example_pub 12 False, example_pub 13 True,
      example_pub 15 False]"

definition example_now :: timestamp where
  "example_now = (2025, 3, 10, 0, 0, 0)"

section \<open>Properties of the sync trigger\<close>

text \<open>
  C2. A sync request whose effective policy is \<open>mirror_complete\<close> or
  \<open>mirror_content_only\<close> on a repository with \<open>retain_package_versions > 0\<close>, or whose
  effective policy is \<open>mirror_complete\<close> on a repository with autopublish or with a
  non-empty \<open>skip_types\<close> list, is rejected with a validation error, and the dispatcher's
  state is unchanged: no task was created and no reservation requested.
\<close>

theorem sync_rejects_mirror_conflicts:
  assumes "((effective_sync_policy vd = MIRROR_COMPLETE
              \<or> effective_sync_policy vd = MIRROR_CONTENT_ONLY)
            \<and> retain_package_versions repo > 0)
         \<or> (effective_sync_policy vd = MIRROR_COMPLETE
            \<and> (autopublish repo \<or> (\<exists>ys. vd_skip_types vd = Some ys \<and> ys \<noteq> [])))"
  shows "is_validation_error (fst (sync repo vd queue)) \<and> snd (sync repo vd queue) = queue"
  using assms
  by (auto simp: sync_def Let_def is_validation_error_def truthy_list_def)

theorem sync_rejects_mirror_conflicts_witness:
  "is_validation_error
     (fst (sync (example_repository\<lparr>retain_package_versions := 3\<rparr>) example_sync_data []))
   \<and> snd (sync (example_repository\<lparr>retain_package_versions := 3\<rparr>) example_sync_data []) = []"
proof -
  have h: "((effective_sync_policy example_sync_data = MIRROR_COMPLETE
              \<or> effective_sync_policy example_sync_data = MIRROR_CONTENT_ONLY)
            \<and> retain_package_versions (example_repository\<lparr>retain_package_versions := 3\<rparr>) > 0)
         \<or> (effective_sync_policy example_sync_data = MIRROR_COMPLETE
            \<and> (autopublish (example_repository\<lparr>retain_package_versions := 3\<rparr>)
               \<or> (\<exists>ys. vd_skip_types example_sync_data = Some ys \<and> ys \<noteq> [])))"
    by (simp add: effective_sync_policy_def example_sync_data_def)
  from sync_rejects_mirror_conflicts [OF h] show ?thesis .
qed

text \<open>
  C8. When the caller supplies no explicit sync policy, the effective policy is
  \<open>mirror_complete\<close> if the mirror flag is true and the additive policy otherwise (also
  when the flag is absent or false). What \<open>sync\<close> then does is decided by that policy:
  under a true mirror flag the three mirror checks are made, in their order, and the
  task dispatched carries \<open>mirror_complete\<close>; otherwise none of them is made, whatever
  the repository's settings, and the task dispatched carries the additive policy. In both
  cases the outcome is that of a request naming the effective policy explicitly.
\<close>

theorem default_sync_policy_from_mirror:
  assumes "vd_sync_policy vd = None"
  shows "(vd_mirror vd = Some True \<longrightarrow>
            effective_sync_policy vd = MIRROR_COMPLETE
            \<and> sync repo vd queue =
                (if retain_package_versions repo > 0
                 then (Inl (ValidationError (mirror_err_msg ''retain_package_versions'')), queue)
                 else if autopublish repo
                 then (Inl (ValidationError (mirror_complete_err_msg ''autopublish'')), queue)
                 else if truthy_list (vd_skip_types vd)
                 then (Inl (ValidationError (mirror_complete_err_msg ''skip_types'')), queue)
                 else (case (case vd_remote vd of None \<Rightarrow> remote repo | Some r \<Rightarrow> Some r) of
                         None \<Rightarrow> (Inl AttributeError, queue)
                       | Some r \<Rightarrow>
                           (Inr (length queue),
                            queue @ [\<lparr>func = Synchronize
                                              \<lparr>kw_sync_policy = MIRROR_COMPLETE,
                                               kw_remote_pk = remote_pk r,
                                               kw_repository_pk = repository_pk repo,
                                               kw_skip_types = vd_skip_types vd,
                                               kw_optimize = vd_optimize vd\<rparr>,
                                       shared_resources = [Remote_resource (remote_pk r)],
                                       exclusive_resources =
                                         [Repository_resource (repository_pk repo)]\<rparr>]))))
       \<and> (vd_mirror vd \<noteq> Some True \<longrightarrow>
            effective_sync_policy vd = ADDITIVE
            \<and> sync repo vd queue =
                (case (case vd_remote vd of None \<Rightarrow> remote repo | Some r \<Rightarrow> Some r) of
                   None \<Rightarrow> (Inl AttributeError, queue)
                 | Some r \<Rightarrow>
                     (Inr (length queue),
                      queue @ [\<lparr>func = Synchronize
                                        \<lparr>kw_sync_policy = ADDITIVE,
                                         kw_remote_pk = remote_pk r,
                                         kw_repository_pk = repository_pk repo,
                                         kw_skip_types = vd_skip_types vd,
                                         kw_optimize = vd_optimize vd\<rparr>,
                                 shared_resources = [Remote_resource (remote_pk r)],
                                 exclusive_resources =
                                   [Repository_resource (repository_pk repo)]\<rparr>])))
       \<and> sync repo vd queue
           = sync repo (vd\<lparr>vd_sync_policy := Some (effective_sync_policy vd)\<rparr>) queue"
  using assms
  by (simp add: effective_sync_policy_def sync_def dispatch_def split: option.splits)

theorem default_sync_policy_from_mirror_witness:
  "sync (example_repository\<lparr>retain_package_versions := 3\<rparr>) example_sync_data []
     = (Inl (ValidationError (mirror_err_msg ''retain_package_versions'')), [])
   \<and> sync example_repository example_sync_data [] = (Inr 0, [example_sync_task])
   \<and> kw_sync_policy (case func example_sync_task of Synchronize kw \<Rightarrow> kw) = MIRROR_COMPLETE
   \<and> (\<exists>t. sync (example_repository\<lparr>retain_package_versions := 3\<rparr>)
              (example_sync_data\<lparr>vd_mirror := None\<rparr>) [] = (Inr 0, [t])
          \<and> (\<exists>kw. func t = Synchronize kw \<and> kw_sync_policy kw = ADDITIVE))
   \<and> (\<exists>t. sync (example_repository\<lparr>retain_package_versions := 3\<rparr>)
              (example_sync_data\<lparr>vd_mirror := Some False\<rparr>) [] = (Inr 0, [t])
          \<and> (\<exists>kw. func t = Synchronize kw \<and> kw_sync_policy kw = ADDITIVE))"
proof -
  let ?full = "example_repository\<lparr>retain_package_versions := 3\<rparr>"
  have a: "vd_sync_policy example_sync_data = None"
    and b: "vd_sync_policy (example_sync_data\<lparr>vd_mirror := None\<rparr>) = None"
    and c: "vd_sync_policy (example_sync_data\<lparr>vd_mirror := Some False\<rparr>) = None"
    by (simp_all add: example_sync_data_def)
  have m: "vd_mirror example_sync_data = Some True"
    by (simp add: example_sync_data_def)
  have r: "remote ?full = Some example_remote" "remote example_repository = Some example_remote"
    "vd_remote example_sync_data = None" "retain_package_versions ?full = 3"
    "retain_package_versions example_repository = 0" "autopublish example_repository = False"
    "vd_skip_types example_sync_data = None"
    by (simp_all add: example_repository_def example_sync_data_def)
  from default_sync_policy_from_mirror [OF a, of ?full "[]"] m r
  have one: "sync ?full example_sync_data []
               = (Inl (ValidationError (mirror_err_msg ''retain_package_versions'')), [])"
    by simp
  from default_sync_policy_from_mirror [OF a, of example_repository "[]"] m r
  have two: "sync example_repository example_sync_data [] = (Inr 0, [example_sync_task])"
    by (simp add: truthy_list_def example_sync_task_def example_remote_def
          example_repository_def example_sync_data_def)
  have two': "kw_sync_policy (case func example_sync_task of Synchronize kw \<Rightarrow> kw)
                = MIRROR_COMPLETE"
    by (simp add: example_sync_task_def)
  from default_sync_policy_from_mirror [OF b, of ?full "[]"] r
  have three: "\<exists>t. sync ?full (example_sync_data\<lparr>vd_mirror := None\<rparr>) [] = (Inr 0, [t])
          \<and> (\<exists>kw. func t = Synchronize kw \<and> kw_sync_policy kw = ADDITIVE)"
    by simp
  from default_sync_policy_from_mirror [OF c, of ?full "[]"] r
  have four: "\<exists>t. sync ?full (example_sync_data\<lparr>vd_mirror := Some False\<rparr>) [] = (Inr 0, [t])
          \<and> (\<exists>kw. func t = Synchronize kw \<and> kw_sync_policy kw = ADDITIVE)"
    by simp
  from one two two' three four show ?thesis by blast
qed

section \<open>Properties of the publish trigger\<close>

text \<open>
  C5. For a publish request whose repository version belongs to a stored repository, the
  task is dispatched with the checksum type, the \<open>repo_config\<close> and the compression type
  the request supplied, and with the repository's stored value for each of them the
  request left out. The checkpoint flag reaches the task: the keyword \<open>checkpoint\<close> is
  \<open>True\<close> exactly when the request asked for a checkpoint, and is absent otherwise.
\<close>

theorem publish_effective_settings:
  assumes "vd_repository_version vd = Some rv"
    and "repos (repository rv) = Some repo"
  shows "\<exists>kw sh ex.
           RpmPublicationViewSet_create repos vd queue
             = (Inr (length queue),
                queue @ [\<lparr>func = Publish kw, shared_resources = sh, exclusive_resources = ex\<rparr>])
         \<and> kw_checksum_type kw
             = (case vd_checksum_type vd of Some v \<Rightarrow> v | None \<Rightarrow> checksum_type repo)
         \<and> kw_repo_config kw
             = (case vd_repo_config vd of Some v \<Rightarrow> v | None \<Rightarrow> repo_config repo)
         \<and> kw_compression_type kw
             = (case vd_compression_type vd of Some v \<Rightarrow> v | None \<Rightarrow> compression_type repo)
         \<and> kw_checkpoint kw = (if vd_checkpoint vd = Some True then Some True else None)"
  using assms
  by (simp add: RpmPublicationViewSet_create_def dispatch_def get_default_def Let_def
           split: option.splits)

theorem publish_effective_settings_witness:
  "\<exists>kw sh ex.
     RpmPublicationViewSet_create example_repositories example_publication_data []
       = (Inr 0, [\<lparr>func = Publish kw, shared_resources = sh, exclusive_resources = ex\<rparr>])
     \<and> kw_checksum_type kw = Some ''sha256''
     \<and> kw_repo_config kw = [(''gpgcheck'', ''0'')]
     \<and> kw_compression_type kw = Some ''zstd''
     \<and> kw_checkpoint kw = Some True"
proof -
  have a: "vd_repository_version example_publication_data
             = Some \<lparr>version_pk = 11, number = 1, repository = 1\<rparr>"
    by (simp add: example_publication_data_def)
  have b: "example_repositories (repository \<lparr>version_pk = 11, number = 1, repository = 1\<rparr>)
             = Some example_repository"
    by (simp add: example_repositories_def)
  from publish_effective_settings
         [where vd = example_publication_data and repos = example_repositories
            and queue = "[]", OF a b]
  show ?thesis
    by (simp add: example_publication_data_def example_repository_def)
qed

section \<open>Reservations declared by the triggers\<close>

lemma process_entry_resources:
  assumes "process_entry h entry = Inr (r, src, dst)"
  shows "source_resource h entry = Some src \<and> dest_resource h entry = Some dst"
  using assms
  by (auto simp: process_entry_def get_resource_def source_resource_def dest_resource_def
           split: option.splits sum.splits)

lemma process_config_loop_resources:
  "process_config_loop h config (res, sh, ex) = Inr (res', sh', ex') \<Longrightarrow>
     map Some sh' = map Some sh @ map (source_resource h) config
     \<and> map Some ex' = map Some ex @ map (dest_resource h) config"
proof (induction config arbitrary: res sh ex)
  case Nil
  then show ?case by simp
next
  case (Cons entry entries)
  from Cons.prems obtain r src dst where
    e: "process_entry h entry = Inr (r, src, dst)"
    and rest: "process_config_loop h entries (res @ [r], sh @ [src], ex @ [dst])
                 = Inr (res', sh', ex')"
    by (auto split: sum.splits)
  from Cons.IH [OF rest] process_entry_resources [OF e]
  show ?case by simp
qed

lemma example_sync_result:
  "sync example_repository example_sync_data [] = (Inr 0, [example_sync_task])"
  by (simp add: sync_def example_repository_def example_sync_data_def effective_sync_policy_def
        truthy_list_def dispatch_def example_remote_def example_sync_task_def)

lemma example_copy_result:
  "CopyViewSet_create example_hrefs example_copy_data [] = (Inr 0, [example_copy_task])"
  by (simp add: CopyViewSet_create_def process_config_def process_entry_def get_resource_def
        example_hrefs_def example_copy_entry_def example_repository_def dest_base_version_pk_def
        extract_pk_def dispatch_def example_copy_data_def example_copy_task_def)

lemma example_publish_result:
  "RpmPublicationViewSet_create example_repositories example_publication_data queue
     = (Inr (length queue), queue @ [example_publish_task])"
  by (simp add: RpmPublicationViewSet_create_def example_repositories_def
        example_publication_data_def example_repository_def get_default_def dispatch_def
        example_publish_task_def)

text \<open>
  C3 as stated fails for the publish trigger. Its task reserves the repository of the
  published version as a shared resource and declares no exclusive reservation at all, so
  two publish tasks of one repository may run at the same time.
\<close>

theorem publish_task_has_no_exclusive_reservation:
  "RpmPublicationViewSet_create example_repositories example_publication_data []
     = (Inr 0, [example_publish_task])
   \<and> RpmPublicationViewSet_create example_repositories example_publication_data
       [example_publish_task]
     = (Inr 1, [example_publish_task, example_publish_task])
   \<and> shared_resources example_publish_task = [Repository_resource 1]
   \<and> exclusive_resources example_publish_task = []
   \<and> may_run_together example_publish_task example_publish_task"
  by (simp add: example_publish_result)
     (simp add: may_run_together_def example_publish_task_def)

text \<open>
  C3, amended. The task a sync dispatches declares the remote it reads as its shared
  reservation and the repository it writes as its exclusive reservation. The task a copy
  dispatches declares the repository of every source version as shared and every
  destination repository as exclusive. The task a publish dispatches declares the
  repository of the published version as shared and nothing as exclusive. A task holding
  a repository exclusively never runs together with another task that reserves that
  repository in either mode: no two sync or copy tasks write one repository at a time, and
  none of them overlaps a publish of it.
\<close>

theorem trigger_reservations:
  "(sync repo svd queue = (Inr hs, qs) \<longrightarrow>
      (\<exists>r kw. (case vd_remote svd of None \<Rightarrow> remote repo | Some x \<Rightarrow> Some x) = Some r
         \<and> qs = queue @ [\<lparr>func = Synchronize kw,
                               shared_resources = [Remote_resource (remote_pk r)],
                               exclusive_resources = [Repository_resource (repository_pk repo)]\<rparr>]))
   \<and> (CopyViewSet_create h cvd queue = (Inr hc, qc) \<longrightarrow>
      (\<exists>t. qc = queue @ [t]
         \<and> map Some (shared_resources t) = map (source_resource h) (vd_config cvd)
         \<and> map Some (exclusive_resources t) = map (dest_resource h) (vd_config cvd)))
   \<and> (RpmPublicationViewSet_create repos pvd queue = (Inr hp, qp) \<longrightarrow>
      (\<exists>rv kw. vd_repository_version pvd = Some rv
         \<and> qp = queue @ [\<lparr>func = Publish kw,
                               shared_resources = [Repository_resource (repository rv)],
                               exclusive_resources = []\<rparr>]))
   \<and> (x \<in> set (exclusive_resources a)
        \<and> x \<in> set (shared_resources b) \<union> set (exclusive_resources b)
      \<longrightarrow> \<not> may_run_together a b \<and> \<not> may_run_together b a)"
proof (intro conjI impI)
  assume "sync repo svd queue = (Inr hs, qs)"
  then show "\<exists>r kw. (case vd_remote svd of None \<Rightarrow> remote repo | Some x \<Rightarrow> Some x) = Some r
         \<and> qs = queue @ [\<lparr>func = Synchronize kw,
                               shared_resources = [Remote_resource (remote_pk r)],
                               exclusive_resources = [Repository_resource (repository_pk repo)]\<rparr>]"
    by (auto simp: sync_def Let_def dispatch_def split: if_splits option.splits)
next
  assume c: "CopyViewSet_create h cvd queue = (Inr hc, qc)"
  then obtain plan sh ex where
    p: "process_config_loop h (vd_config cvd) ([], [], []) = Inr (plan, sh, ex)"
    and q: "qc = queue @ [\<lparr>func = Copy_content plan (vd_dependency_solving cvd),
                                shared_resources = sh, exclusive_resources = ex\<rparr>]"
    by (auto simp: CopyViewSet_create_def process_config_def dispatch_def split: sum.splits)
  from process_config_loop_resources [OF p] q
  show "\<exists>t. qc = queue @ [t]
         \<and> map Some (shared_resources t) = map (source_resource h) (vd_config cvd)
         \<and> map Some (exclusive_resources t) = map (dest_resource h) (vd_config cvd)"
    by simp
next
  assume "RpmPublicationViewSet_create repos pvd queue = (Inr hp, qp)"
  then show "\<exists>rv kw. vd_repository_version pvd = Some rv
         \<and> qp = queue @ [\<lparr>func = Publish kw,
                               shared_resources = [Repository_resource (repository rv)],
                               exclusive_resources = []\<rparr>]"
    by (auto simp: RpmPublicationViewSet_create_def Let_def dispatch_def split: option.splits)
next
  assume "x \<in> set (exclusive_resources a)
        \<and> x \<in> set (shared_resources b) \<union> set (exclusive_resources b)"
  then show "\<not> may_run_together a b" by (auto simp: may_run_together_def)
next
  assume "x \<in> set (exclusive_resources a)
        \<and> x \<in> set (shared_resources b) \<union> set (exclusive_resources b)"
  then show "\<not> may_run_together b a" by (auto simp: may_run_together_def)
qed

theorem trigger_reservations_witness:
  "sync example_repository example_sync_data [] = (Inr 0, [example_sync_task])
   \<and> shared_resources example_sync_task = [Remote_resource 7]
   \<and> exclusive_resources example_sync_task = [Repository_resource 1]
   \<and> CopyViewSet_create example_hrefs example_copy_data [] = (Inr 0, [example_copy_task])
   \<and> map Some (shared_resources example_copy_task) = [Some (Repository_resource 2)]
   \<and> map Some (exclusive_resources example_copy_task) = [Some (Repository_resource 1)]
   \<and> RpmPublicationViewSet_create example_repositories example_publication_data []
       = (Inr 0, [example_publish_task])
   \<and> shared_resources example_publish_task = [Repository_resource 1]
   \<and> exclusive_resources example_publish_task = []
   \<and> \<not> may_run_together example_sync_task example_publish_task
   \<and> \<not> may_run_together example_publish_task example_sync_task"
proof -
  note t = trigger_reservations
    [where repo = example_repository and svd = example_sync_data and queue = "[]"
       and hs = 0 and qs = "[example_sync_task]"
       and h = example_hrefs and cvd = example_copy_data
       and hc = 0 and qc = "[example_copy_task]"
       and repos = example_repositories and pvd = example_publication_data
       and hp = 0 and qp = "[example_publish_task]"
       and x = "Repository_resource 1"
       and a = example_sync_task and b = example_publish_task]
  have a1: "sync example_repository example_sync_data [] = (Inr 0, [example_sync_task])"
    by (rule example_sync_result)
  have a2: "CopyViewSet_create example_hrefs example_copy_data [] = (Inr 0, [example_copy_task])"
    by (rule example_copy_result)
  have a3: "RpmPublicationViewSet_create example_repositories example_publication_data []
              = (Inr 0, [example_publish_task])"
    using example_publish_result [of "[]"] by simp
  have a4: "Repository_resource 1 \<in> set (exclusive_resources example_sync_task)
            \<and> Repository_resource 1 \<in> set (shared_resources example_publish_task)
                \<union> set (exclusive_resources example_publish_task)"
    by (simp add: example_sync_task_def example_publish_task_def)
  from t a1 have b1: "\<exists>r kw. (case vd_remote example_sync_data of
                                None \<Rightarrow> remote example_repository | Some x \<Rightarrow> Some x) = Some r
         \<and> [example_sync_task] = [] @ [\<lparr>func = Synchronize kw,
                               shared_resources = [Remote_resource (remote_pk r)],
                               exclusive_resources =
                                 [Repository_resource (repository_pk example_repository)]\<rparr>]"
    by blast
  from t a2 have b2: "\<exists>t. [example_copy_task] = [] @ [t]
         \<and> map Some (shared_resources t)
             = map (source_resource example_hrefs) (vd_config example_copy_data)
         \<and> map Some (exclusive_resources t)
             = map (dest_resource example_hrefs) (vd_config example_copy_data)"
    by blast
  from t a3 have b3: "\<exists>rv kw. vd_repository_version example_publication_data = Some rv
         \<and> [example_publish_task] = [] @ [\<lparr>func = Publish kw,
                               shared_resources = [Repository_resource (repository rv)],
                               exclusive_resources = []\<rparr>]"
    by blast
  from t a4 have b4: "\<not> may_run_together example_sync_task example_publish_task
                      \<and> \<not> may_run_together example_publish_task example_sync_task"
    by blast
  from b1 have c1: "shared_resources example_sync_task = [Remote_resource 7]
                    \<and> exclusive_resources example_sync_task = [Repository_resource 1]"
    by (auto simp: example_sync_data_def example_repository_def example_remote_def
          dest: arg_cong [where f = shared_resources] arg_cong [where f = exclusive_resources])
  from b2 have c2: "map Some (shared_resources example_copy_task) = [Some (Repository_resource 2)]
                    \<and> map Some (exclusive_resources example_copy_task)
                        = [Some (Repository_resource 1)]"
    by (auto simp: source_resource_def dest_resource_def example_hrefs_def example_copy_data_def
          example_copy_entry_def example_repository_def)
  from b3 have c3: "shared_resources example_publish_task = [Repository_resource 1]
                    \<and> exclusive_resources example_publish_task = []"
    by (auto simp: example_publication_data_def
          dest: arg_cong [where f = shared_resources] arg_cong [where f = exclusive_resources])
  from a1 a2 a3 b4 c1 c2 c3 show ?thesis by blast
qed

section \<open>Properties of the copy trigger\<close>

lemma process_config_loop_append:
  "process_config_loop h (xs @ ys) acc
     = (case process_config_loop h xs acc of
          Inl e \<Rightarrow> Inl e
        | Inr acc' \<Rightarrow> process_config_loop h ys acc')"
proof (induction xs arbitrary: acc)
  case Nil
  then show ?case by simp
next
  case (Cons x xs)
  obtain res sh ex where acc: "acc = (res, sh, ex)" by (cases acc) auto
  show ?case
    by (simp add: acc Cons.IH split: sum.splits)
qed

lemma process_entry_missing_version:
  assumes "version_of_href h (source_repo_version entry) = Some sv"
    and "repository_of_href h (dest_repo entry) = Some dest"
    and "dest_base_version entry = Some n"
    and "\<forall>v \<in> set (versions dest). number v \<noteq> n"
  shows "process_entry h entry
           = Inl (ValidationError (version_missing_message n (name dest)))"
proof -
  from assms(4) have "find (\<lambda>v. number v = n) (versions dest) = None"
    by (simp add: find_None_iff)
  with assms(1-3) show ?thesis
    by (simp add: process_entry_def get_resource_def dest_base_version_pk_def)
qed

lemma process_entry_fails:
  assumes "repository_of_href h (dest_repo entry) = Some dest"
    and "dest_base_version entry = Some n"
    and "\<forall>v \<in> set (versions dest). number v \<noteq> n"
  shows "\<exists>e. process_entry h entry = Inl e"
proof (cases "version_of_href h (source_repo_version entry)")
  case None
  then show ?thesis by (simp add: process_entry_def get_resource_def)
next
  case (Some sv)
  from process_entry_missing_version [OF Some assms] show ?thesis by blast
qed

lemma process_config_loop_fails:
  assumes "entry \<in> set config" and "process_entry h entry = Inl e"
  shows "\<exists>e'. process_config_loop h config acc = Inl e'"
  using assms
proof (induction config arbitrary: acc)
  case Nil
  then show ?case by simp
next
  case (Cons x xs)
  obtain res sh ex where acc: "acc = (res, sh, ex)" by (cases acc) auto
  show ?case
  proof (cases "process_entry h x")
    case (Inl e0)
    then show ?thesis by (simp add: acc)
  next
    case (Inr r)
    with Cons.prems have "entry \<in> set xs" by auto
    from Cons.IH [OF this Cons.prems(2)] Inr show ?thesis
      by (auto simp: acc split: prod.splits)
  qed
qed

text \<open>
  C6 as stated fails: the entries are processed in order and the first error ends the
  request. Here the second entry names version 7, which the destination repository does
  not have, but the first entry's source href does not resolve, so the error raised names
  that href and neither the version number nor the repository.
\<close>

theorem copy_unresolved_source_hides_missing_version:
  "version_of_href example_hrefs (source_repo_version example_missing_version_entry)
     = Some \<lparr>version_pk = 21, number = 1, repository = 2\<rparr>
   \<and> repository_of_href example_hrefs (dest_repo example_missing_version_entry)
     = Some example_repository
   \<and> dest_base_version example_missing_version_entry = Some 7
   \<and> find (\<lambda>v. number v = 7) (versions example_repository) = None
   \<and> CopyViewSet_create example_hrefs
       \<lparr>vd_dependency_solving = False,
        vd_config = [example_unresolved_entry, example_missing_version_entry]\<rparr> []
     = (Inl (NotFoundError ''/repositories/gone/versions/1/''), [])"
  by (simp add: CopyViewSet_create_def process_config_def process_entry_def get_resource_def
        example_hrefs_def example_unresolved_entry_def example_missing_version_entry_def
        example_copy_entry_def example_repository_def)

text \<open>
  C6, amended. Let an entry name a \<open>dest_base_version\<close> that its destination repository
  does not have. If the entries before it are processed without error and its source
  version resolves, the request fails with the validation error
  \<open>Version n does not exist for repository 'name'.\<close>, whose message contains the requested
  number and the destination repository's name. Whatever else the request holds, it
  fails and the dispatcher's state is unchanged: no task is dispatched.
\<close>

theorem copy_missing_dest_base_version:
  assumes "repository_of_href h (dest_repo entry) = Some dest"
    and "dest_base_version entry = Some n"
    and "\<forall>v \<in> set (versions dest). number v \<noteq> n"
  shows "(process_config h pre = Inr acc
            \<and> version_of_href h (source_repo_version entry) = Some sv
          \<longrightarrow> CopyViewSet_create h
                 \<lparr>vd_dependency_solving = ds, vd_config = pre @ entry # post\<rparr> queue
               = (Inl (ValidationError (version_missing_message n (name dest))), queue))
       \<and> (\<exists>a b c. version_missing_message n (name dest) = a @ str_int n @ b @ name dest @ c)
       \<and> (entry \<in> set (vd_config vd)
          \<longrightarrow> (\<exists>e. CopyViewSet_create h vd queue = (Inl e, queue)))"
proof (intro conjI impI)
  assume a: "process_config h pre = Inr acc
            \<and> version_of_href h (source_repo_version entry) = Some sv"
  obtain res sh ex where acc: "acc = (res, sh, ex)" by (cases acc) auto
  from a have e: "process_entry h entry
                    = Inl (ValidationError (version_missing_message n (name dest)))"
    using process_entry_missing_version assms by blast
  from a have "process_config_loop h (pre @ entry # post) ([], [], [])
                 = process_config_loop h (entry # post) acc"
    by (simp add: process_config_loop_append process_config_def)
  also have "\<dots> = Inl (ValidationError (version_missing_message n (name dest)))"
    by (simp add: acc e)
  finally show "CopyViewSet_create h
                 \<lparr>vd_dependency_solving = ds, vd_config = pre @ entry # post\<rparr> queue
               = (Inl (ValidationError (version_missing_message n (name dest))), queue)"
    by (simp add: CopyViewSet_create_def process_config_def)
next
  have "version_missing_message n (name dest)
          = ''Version '' @ str_int n @ ('' does not exist for repository '' @ [CHR 0x27])
              @ name dest @ ([CHR 0x27] @ ''.'')"
    by (simp add: version_missing_message_def quoted_def)
  then show "\<exists>a b c. version_missing_message n (name dest) = a @ str_int n @ b @ name dest @ c"
    by blast
next
  assume "entry \<in> set (vd_config vd)"
  moreover from process_entry_fails [OF assms] obtain e where "process_entry h entry = Inl e" ..
  ultimately obtain e' where "process_config_loop h (vd_config vd) ([], [], []) = Inl e'"
    using process_config_loop_fails by blast
  then show "\<exists>e. CopyViewSet_create h vd queue = (Inl e, queue)"
    by (simp add: CopyViewSet_create_def process_config_def)
qed

theorem copy_missing_dest_base_version_witness:
  "CopyViewSet_create example_hrefs
     \<lparr>vd_dependency_solving = True,
      vd_config = [example_copy_entry, example_missing_version_entry]\<rparr> []
     = (Inl (ValidationError
               (''Version 7 does not exist for repository '' @ quoted ''dest'' @ ''.'')), [])
   \<and> (\<exists>e. CopyViewSet_create example_hrefs
             \<lparr>vd_dependency_solving = False,
              vd_config = [example_unresolved_entry, example_missing_version_entry]\<rparr> []
           = (Inl e, []))"
proof -
  let ?entry = example_missing_version_entry
  have d: "repository_of_href example_hrefs (dest_repo ?entry) = Some example_repository"
    by (simp add: example_hrefs_def example_copy_entry_def example_missing_version_entry_def)
  have b: "dest_base_version ?entry = Some 7"
    by (simp add: example_missing_version_entry_def)
  have v: "\<forall>v \<in> set (versions example_repository). number v \<noteq> 7"
    by (simp add: example_repository_def)
  have p: "process_config example_hrefs [example_copy_entry]
             = Inr ([\<lparr>r_source_repo_version = 21, r_dest_repo = 1,
                      r_dest_base_version = Some 11, r_content = Some [31]\<rparr>],
                    [Repository_resource 2], [Repository_resource 1])
           \<and> version_of_href example_hrefs (source_repo_version ?entry)
               = Some \<lparr>version_pk = 21, number = 1, repository = 2\<rparr>"
    by (simp add: process_config_def process_entry_def get_resource_def
          example_hrefs_def example_copy_entry_def example_repository_def
          dest_base_version_pk_def extract_pk_def example_missing_version_entry_def)
  have m: "version_missing_message 7 (name example_repository)
             = ''Version 7 does not exist for repository '' @ quoted ''dest'' @ ''.''"
    by (simp add: version_missing_message_def str_int_def example_repository_def)
  from copy_missing_dest_base_version
         [OF d b v, where pre = "[example_copy_entry]" and post = "[]" and ds = True
            and queue = "[]"] p m
  have one: "CopyViewSet_create example_hrefs
     \<lparr>vd_dependency_solving = True,
      vd_config = [example_copy_entry, example_missing_version_entry]\<rparr> []
     = (Inl (ValidationError
               (''Version 7 does not exist for repository '' @ quoted ''dest'' @ ''.'')), [])"
    by simp
  from copy_missing_dest_base_version
         [OF d b v, where vd = "\<lparr>vd_dependency_solving = False,
                                   vd_config = [example_unresolved_entry,
                                                example_missing_version_entry]\<rparr>"
            and queue = "[]"]
  have two: "\<exists>e. CopyViewSet_create example_hrefs
             \<lparr>vd_dependency_solving = False,
              vd_config = [example_unresolved_entry, example_missing_version_entry]\<rparr> []
           = (Inl e, [])"
    by simp
  from one two show ?thesis by blast
qed

section \<open>Properties of module metadata creation\<close>

lemma modulemd_key_packages [simp]: "modulemd_key (u\<lparr>m_packages := ps\<rparr>) = modulemd_key u"
  by (simp add: modulemd_key_def)

lemma set_packages_unchanged:
  assumes "modulemd_key u \<notin> set (map modulemd_key xs)"
  shows "map (\<lambda>x. if modulemd_key x = modulemd_key u then x\<lparr>m_packages := ps\<rparr> else x) xs = xs"
  using assms by (induction xs) auto

lemma modulemd_create_fresh:
  assumes "modulemd_key (modulemd_unit H a) \<notin> set (map modulemd_key (stored_modulemds st))"
    and "mvd_packages a = Some ps"
  shows "ModulemdSerializer_create H a st
           = (Inr ((modulemd_unit H a)\<lparr>m_packages := ps\<rparr>),
              st\<lparr>stored_modulemds :=
                   stored_modulemds st @ [(modulemd_unit H a)\<lparr>m_packages := ps\<rparr>]\<rparr>)"
  using assms
  by (simp add: ModulemdSerializer_create_def insert_modulemd_def set_packages_def
        set_packages_unchanged Let_def)

lemma modulemd_create_duplicate:
  assumes "modulemd_key (modulemd_unit H b) \<in> set (map modulemd_key (stored_modulemds st))"
    and "mvd_packages b = Some qs"
  shows "ModulemdSerializer_create H b st = (Inl (ConflictError duplicate_key_message), st)"
  using assms
  by (simp add: ModulemdSerializer_create_def insert_modulemd_def Let_def)

lemma modulemd_key_same_snippet:
  assumes "mvd_snippet b = mvd_snippet a"
  shows "(modulemd_key (modulemd_unit H b) = modulemd_key (modulemd_unit H a))
           = same_identifying_fields a b"
  using assms
  by (auto simp: modulemd_key_def modulemd_unit_def same_identifying_fields_def Let_def)

lemma modulemd_defaults_create_fresh:
  assumes "H (dvd_snippet c) \<notin> set (map d_digest (stored_modulemd_defaults st))"
  shows "ModulemdDefaultsSerializer_create H c st
           = (Inr (modulemd_defaults_unit H c),
              st\<lparr>stored_modulemd_defaults :=
                   stored_modulemd_defaults st @ [modulemd_defaults_unit H c]\<rparr>)"
  using assms
  by (simp add: ModulemdDefaultsSerializer_create_def insert_modulemd_defaults_def
        modulemd_defaults_unit_def Let_def)

lemma modulemd_defaults_create_duplicate:
  assumes "H (dvd_snippet d) \<in> set (map d_digest (stored_modulemd_defaults st))"
  shows "ModulemdDefaultsSerializer_create H d st = (Inl (ConflictError duplicate_key_message), st)"
  using assms
  by (simp add: ModulemdDefaultsSerializer_create_def insert_modulemd_defaults_def
        modulemd_defaults_unit_def Let_def)

text \<open>
  C10 as stated fails for modulemd. The two requests below have the same snippet, hence
  the same digest, and differ in the name. The second is not a duplicate of the first:
  it is created as a unit of its own.
\<close>

theorem same_snippet_other_name_is_created:
  "mvd_snippet (example_modulemd_request\<lparr>mvd_name := ''bar''\<rparr>)
     = mvd_snippet example_modulemd_request
   \<and> m_digest (modulemd_unit example_hash (example_modulemd_request\<lparr>mvd_name := ''bar''\<rparr>))
     = m_digest (modulemd_unit example_hash example_modulemd_request)
   \<and> fst (ModulemdSerializer_create example_hash example_modulemd_request example_store)
     = Inr ((modulemd_unit example_hash example_modulemd_request)\<lparr>m_packages := [5]\<rparr>)
   \<and> fst (ModulemdSerializer_create example_hash
            (example_modulemd_request\<lparr>mvd_name := ''bar''\<rparr>)
            (snd (ModulemdSerializer_create example_hash example_modulemd_request
                    example_store)))
     = Inr ((modulemd_unit example_hash (example_modulemd_request\<lparr>mvd_name := ''bar''\<rparr>))
              \<lparr>m_packages := [5]\<rparr>)"
  by (simp add: ModulemdSerializer_create_def insert_modulemd_def set_packages_def
        modulemd_key_def modulemd_unit_def example_store_def example_modulemd_request_def
        Let_def)

text \<open>
  C10, amended. Both serializers compute the digest of the unit they create as the hash
  of the snippet and of nothing else, so requests with the same snippet get the same
  digest however their other fields differ. For a modulemd-defaults the first creation
  stores the unit and the creation of a second request with the same snippet is refused
  as a duplicate. For a modulemd whose request supplies packages the first creation
  stores the unit; a second request with the same snippet is refused as a duplicate when
  name, stream, version, context and arch agree as well, and is created as a new unit
  when they do not (and no stored unit has its identity).
\<close>

theorem digest_of_snippet_alone:
  "m_digest (modulemd_unit H a) = H (mvd_snippet a)
   \<and> d_digest (modulemd_defaults_unit H c) = H (dvd_snippet c)
   \<and> (H (dvd_snippet c) \<notin> set (map d_digest (stored_modulemd_defaults st)) \<longrightarrow>
        ModulemdDefaultsSerializer_create H c st
          = (Inr (modulemd_defaults_unit H c),
             st\<lparr>stored_modulemd_defaults :=
                  stored_modulemd_defaults st @ [modulemd_defaults_unit H c]\<rparr>)
        \<and> (dvd_snippet d = dvd_snippet c \<longrightarrow>
             ModulemdDefaultsSerializer_create H d
               (snd (ModulemdDefaultsSerializer_create H c st))
               = (Inl (ConflictError duplicate_key_message),
                  snd (ModulemdDefaultsSerializer_create H c st))))
   \<and> (modulemd_key (modulemd_unit H a) \<notin> set (map modulemd_key (stored_modulemds st))
        \<and> mvd_packages a = Some ps \<longrightarrow>
        ModulemdSerializer_create H a st
          = (Inr ((modulemd_unit H a)\<lparr>m_packages := ps\<rparr>),
             st\<lparr>stored_modulemds :=
                  stored_modulemds st @ [(modulemd_unit H a)\<lparr>m_packages := ps\<rparr>]\<rparr>)
        \<and> (mvd_snippet b = mvd_snippet a \<and> mvd_packages b = Some qs \<longrightarrow>
             m_digest (modulemd_unit H b) = m_digest (modulemd_unit H a)
             \<and> (same_identifying_fields a b \<longrightarrow>
                  ModulemdSerializer_create H b (snd (ModulemdSerializer_create H a st))
                    = (Inl (ConflictError duplicate_key_message),
                       snd (ModulemdSerializer_create H a st)))
             \<and> (\<not> same_identifying_fields a b
                  \<and> modulemd_key (modulemd_unit H b)
                      \<notin> set (map modulemd_key (stored_modulemds st)) \<longrightarrow>
                  fst (ModulemdSerializer_create H b (snd (ModulemdSerializer_create H a st)))
                    = Inr ((modulemd_unit H b)\<lparr>m_packages := qs\<rparr>))))"
proof (intro conjI impI)
  show "m_digest (modulemd_unit H a) = H (mvd_snippet a)"
    by (simp add: modulemd_unit_def Let_def)
  show "d_digest (modulemd_defaults_unit H c) = H (dvd_snippet c)"
    by (simp add: modulemd_defaults_unit_def Let_def)
next
  assume f: "H (dvd_snippet c) \<notin> set (map d_digest (stored_modulemd_defaults st))"
  show c1: "ModulemdDefaultsSerializer_create H c st
          = (Inr (modulemd_defaults_unit H c),
             st\<lparr>stored_modulemd_defaults :=
                  stored_modulemd_defaults st @ [modulemd_defaults_unit H c]\<rparr>)"
    by (rule modulemd_defaults_create_fresh [where H = H, OF f])
  assume s: "dvd_snippet d = dvd_snippet c"
  let ?st = "snd (ModulemdDefaultsSerializer_create H c st)"
  have "H (dvd_snippet d) \<in> set (map d_digest (stored_modulemd_defaults ?st))"
    by (simp add: c1 s modulemd_defaults_unit_def Let_def)
  then show "ModulemdDefaultsSerializer_create H d ?st
               = (Inl (ConflictError duplicate_key_message), ?st)"
    by (rule modulemd_defaults_create_duplicate [where H = H])
next
  assume f: "modulemd_key (modulemd_unit H a) \<notin> set (map modulemd_key (stored_modulemds st))
        \<and> mvd_packages a = Some ps"
  then have f1: "modulemd_key (modulemd_unit H a) \<notin> set (map modulemd_key (stored_modulemds st))"
    and f2: "mvd_packages a = Some ps" by simp_all
  show c1: "ModulemdSerializer_create H a st
          = (Inr ((modulemd_unit H a)\<lparr>m_packages := ps\<rparr>),
             st\<lparr>stored_modulemds :=
                  stored_modulemds st @ [(modulemd_unit H a)\<lparr>m_packages := ps\<rparr>]\<rparr>)"
    by (rule modulemd_create_fresh [OF f1 f2])
  let ?st = "snd (ModulemdSerializer_create H a st)"
  have keys: "set (map modulemd_key (stored_modulemds ?st))
                = insert (modulemd_key (modulemd_unit H a))
                    (set (map modulemd_key (stored_modulemds st)))"
    by (simp add: c1)
  assume s: "mvd_snippet b = mvd_snippet a \<and> mvd_packages b = Some qs"
  then have s1: "mvd_snippet b = mvd_snippet a" and s2: "mvd_packages b = Some qs" by simp_all
  show "m_digest (modulemd_unit H b) = m_digest (modulemd_unit H a)"
    by (simp add: modulemd_unit_def Let_def s1)
  {
    assume "same_identifying_fields a b"
    with modulemd_key_same_snippet [OF s1, of H]
    have "modulemd_key (modulemd_unit H b) = modulemd_key (modulemd_unit H a)" by simp
    with keys have "modulemd_key (modulemd_unit H b) \<in> set (map modulemd_key (stored_modulemds ?st))"
      by simp
    from modulemd_create_duplicate [OF this s2]
    show "ModulemdSerializer_create H b ?st = (Inl (ConflictError duplicate_key_message), ?st)" .
  }
  {
    assume n: "\<not> same_identifying_fields a b
                  \<and> modulemd_key (modulemd_unit H b)
                      \<notin> set (map modulemd_key (stored_modulemds st))"
    with modulemd_key_same_snippet [OF s1, of H]
    have "modulemd_key (modulemd_unit H b) \<noteq> modulemd_key (modulemd_unit H a)" by simp
    with keys n have "modulemd_key (modulemd_unit H b)
                        \<notin> set (map modulemd_key (stored_modulemds ?st))"
      by simp
    from modulemd_create_fresh [OF this s2]
    show "fst (ModulemdSerializer_create H b ?st) = Inr ((modulemd_unit H b)\<lparr>m_packages := qs\<rparr>)"
      by simp
  }
qed

theorem digest_of_snippet_alone_witness:
  "ModulemdDefaultsSerializer_create example_hash example_defaults_request example_store
     = (Inr (modulemd_defaults_unit example_hash example_defaults_request),
        example_store\<lparr>stored_modulemd_defaults :=
          [modulemd_defaults_unit example_hash example_defaults_request]\<rparr>)
   \<and> ModulemdDefaultsSerializer_create example_hash
       (example_defaults_request\<lparr>dvd_module := ''squid-mod2''\<rparr>)
       (snd (ModulemdDefaultsSerializer_create example_hash example_defaults_request
               example_store))
     = (Inl (ConflictError duplicate_key_message),
        snd (ModulemdDefaultsSerializer_create example_hash example_defaults_request
               example_store))
   \<and> ModulemdSerializer_create example_hash example_modulemd_request example_store
     = (Inr ((modulemd_unit example_hash example_modulemd_request)\<lparr>m_packages := [5]\<rparr>),
        example_store\<lparr>stored_modulemds :=
          [(modulemd_unit example_hash example_modulemd_request)\<lparr>m_packages := [5]\<rparr>]\<rparr>)
   \<and> ModulemdSerializer_create example_hash
       (example_modulemd_request\<lparr>mvd_description := ''other''\<rparr>)
       (snd (ModulemdSerializer_create example_hash example_modulemd_request example_store))
     = (Inl (ConflictError duplicate_key_message),
        snd (ModulemdSerializer_create example_hash example_modulemd_request example_store))
   \<and> fst (ModulemdSerializer_create example_hash
            (example_modulemd_request\<lparr>mvd_name := ''bar''\<rparr>)
            (snd (ModulemdSerializer_create example_hash example_modulemd_request
                    example_store)))
     = Inr ((modulemd_unit example_hash (example_modulemd_request\<lparr>mvd_name := ''bar''\<rparr>))
              \<lparr>m_packages := [5]\<rparr>)"
proof -
  let ?a = example_modulemd_request
  let ?b = "example_modulemd_request\<lparr>mvd_description := ''other''\<rparr>"
  let ?b' = "example_modulemd_request\<lparr>mvd_name := ''bar''\<rparr>"
  let ?c = example_defaults_request
  let ?d = "example_defaults_request\<lparr>dvd_module := ''squid-mod2''\<rparr>"
  have st: "stored_modulemds example_store = []" "stored_modulemd_defaults example_store = []"
    by (simp_all add: example_store_def)
  have h1: "example_hash (dvd_snippet ?c)
              \<notin> set (map d_digest (stored_modulemd_defaults example_store))"
    by (simp add: st)
  have h2: "modulemd_key (modulemd_unit example_hash ?a)
              \<notin> set (map modulemd_key (stored_modulemds example_store))
            \<and> mvd_packages ?a = Some [5]"
    by (simp add: st example_modulemd_request_def)
  have h3: "dvd_snippet ?d = dvd_snippet ?c" by simp
  have h4: "mvd_snippet ?b = mvd_snippet ?a \<and> mvd_packages ?b = Some [5]"
    and h4': "mvd_snippet ?b' = mvd_snippet ?a \<and> mvd_packages ?b' = Some [5]"
    by (simp_all add: example_modulemd_request_def)
  have h5: "same_identifying_fields ?a ?b"
    by (simp add: same_identifying_fields_def)
  have h6: "\<not> same_identifying_fields ?a ?b'
            \<and> modulemd_key (modulemd_unit example_hash ?b')
                \<notin> set (map modulemd_key (stored_modulemds example_store))"
    by (simp add: same_identifying_fields_def st example_modulemd_request_def)
  note t1 = digest_of_snippet_alone
    [where H = example_hash and a = ?a and b = ?b and c = ?c and d = ?d
       and st = example_store and ps = "[5]" and qs = "[5]"]
  note t2 = digest_of_snippet_alone
    [where H = example_hash and a = ?a and b = ?b' and c = ?c and d = ?d
       and st = example_store and ps = "[5]" and qs = "[5]"]
  from t1 h1 h3
  have r1: "ModulemdDefaultsSerializer_create example_hash ?c example_store
          = (Inr (modulemd_defaults_unit example_hash ?c),
             example_store\<lparr>stored_modulemd_defaults :=
                  stored_modulemd_defaults example_store
                    @ [modulemd_defaults_unit example_hash ?c]\<rparr>)"
    and r2: "ModulemdDefaultsSerializer_create example_hash ?d
               (snd (ModulemdDefaultsSerializer_create example_hash ?c example_store))
               = (Inl (ConflictError duplicate_key_message),
                  snd (ModulemdDefaultsSerializer_create example_hash ?c example_store))"
    by blast+
  from t1 h2 h4 h5
  have r3: "ModulemdSerializer_create example_hash ?a example_store
          = (Inr ((modulemd_unit example_hash ?a)\<lparr>m_packages := [5]\<rparr>),
             example_store\<lparr>stored_modulemds :=
                  stored_modulemds example_store
                    @ [(modulemd_unit example_hash ?a)\<lparr>m_packages := [5]\<rparr>]\<rparr>)"
    and r4: "ModulemdSerializer_create example_hash ?b
               (snd (ModulemdSerializer_create example_hash ?a example_store))
               = (Inl (ConflictError duplicate_key_message),
                  snd (ModulemdSerializer_create example_hash ?a example_store))"
    by blast+
  from t2 h2 h4' h6
  have r5: "fst (ModulemdSerializer_create example_hash ?b'
                   (snd (ModulemdSerializer_create example_hash ?a example_store)))
              = Inr ((modulemd_unit example_hash ?b')\<lparr>m_packages := [5]\<rparr>)"
    by blast
  from r1 r2 r3 r4 r5 show ?thesis
    by (simp only: st append_Nil)
qed

section \<open>Properties of the checkpoint resolver\<close>

subsection \<open>Timestamps: parsing inverts formatting\<close>

lemma digit_val_nth: "\<forall>k \<in> {0..<10}. digit_val (''0123456789'' ! k) = Some k"
  by code_simp

lemma digit_val_digit_char: "digit_val (digit_char n) = Some (n mod 10)"
proof -
  have "n mod 10 \<in> {0..<10}" by simp
  with digit_val_nth show ?thesis
    unfolding digit_char_def by blast
qed

lemma number_from_pad2:
  assumes "n < 100"
  shows "number_from acc (pad2 n) = Some (100 * acc + n)"
proof -
  from assms have "n div 10 mod 10 = n div 10" by simp
  moreover have "10 * (n div 10) + n mod 10 = n" by simp
  ultimately show ?thesis
    by (simp add: pad2_def digit_val_digit_char algebra_simps)
qed

lemma number_from_append:
  "number_from acc (xs @ ys)
     = (case number_from acc xs of None \<Rightarrow> None | Some a \<Rightarrow> number_from a ys)"
  by (induction xs arbitrary: acc) (auto split: option.splits)

lemma number_from_pad4:
  assumes "n < 10000"
  shows "number_from 0 (pad4 n) = Some n"
proof -
  from assms have "n div 100 < 100" by simp
  then show ?thesis
    by (simp add: pad4_def number_from_append number_from_pad2)
qed

lemma length_pad2: "length (pad2 n) = 2"
  by (simp add: pad2_def)

lemma length_pad4: "length (pad4 n) = 4"
  by (simp add: pad4_def pad2_def)

lemma days_in_month_le: "days_in_month y m \<le> 31"
  by (simp add: days_in_month_def)

lemma format_fields:
  fixes y mo d h mi s :: nat
  defines "txt \<equiv> pad4 y @ pad2 mo @ pad2 d @ ''T'' @ pad2 h @ pad2 mi @ pad2 s @ ''Z''"
  shows "length txt = 16" and "txt ! 8 = CHR ''T''" and "txt ! 15 = CHR ''Z''"
    and "take 4 txt = pad4 y" and "take 2 (drop 4 txt) = pad2 mo"
    and "take 2 (drop 6 txt) = pad2 d" and "take 2 (drop 9 txt) = pad2 h"
    and "take 2 (drop 11 txt) = pad2 mi" and "take 2 (drop 13 txt) = pad2 s"
  by (simp_all add: txt_def pad4_def pad2_def)

lemma parse_format_timestamp:
  assumes "valid_timestamp t"
  shows "parse_timestamp (format_timestamp t) = Some t"
proof -
  obtain y mo d h mi s where t: "t = (y, mo, d, h, mi, s)" by (cases t) auto
  from assms t days_in_month_le [of y mo]
  have b: "y < 10000" "mo < 100" "d < 100" "h < 100" "mi < 100" "s < 100" by auto
  note n = number_from_pad4 [OF b(1)] number_from_pad2 [OF b(2), of 0]
    number_from_pad2 [OF b(3), of 0] number_from_pad2 [OF b(4), of 0]
    number_from_pad2 [OF b(5), of 0] number_from_pad2 [OF b(6), of 0]
  have "parse_timestamp (format_timestamp (y, mo, d, h, mi, s)) = Some (y, mo, d, h, mi, s)"
    unfolding parse_timestamp_def format_timestamp.simps
    using assms [unfolded t]
    by (simp only: format_fields n) simp
  then show ?thesis by (simp only: t)
qed

lemma format_timestamp_inj:
  assumes "valid_timestamp a" and "valid_timestamp b"
    and "format_timestamp a = format_timestamp b"
  shows "a = b"
proof -
  from assms(3) have "parse_timestamp (format_timestamp a) = parse_timestamp (format_timestamp b)"
    by simp
  with assms(1,2) show ?thesis by (simp add: parse_format_timestamp)
qed

subsection \<open>The binary search finds the latest entry at or before the request\<close>

lemma bisect_right_bounds:
  assumes "sorted xs" and "lo \<le> hi" and "hi \<le> length xs"
    and "\<forall>i<lo. xs ! i \<le> t"
    and "\<forall>i. hi \<le> i \<and> i < length xs \<longrightarrow> t < xs ! i"
  shows "bisect_right xs t lo hi \<le> length xs
       \<and> (\<forall>i<bisect_right xs t lo hi. xs ! i \<le> t)
       \<and> (\<forall>i. bisect_right xs t lo hi \<le> i \<and> i < length xs \<longrightarrow> t < xs ! i)"
  using assms
proof (induction xs t lo hi rule: bisect_right.induct)
  case (1 xs t lo hi)
  show ?case
  proof (cases "lo < hi")
    case False
    then have "bisect_right xs t lo hi = lo"
      by (subst bisect_right.simps) simp
    moreover from False "1.prems" have "lo = hi" by simp
    ultimately show ?thesis using "1.prems" by simp
  next
    case True
    define mid where "mid = (lo + hi) div 2"
    from True have m: "lo \<le> mid" "mid < hi" by (simp_all add: mid_def)
    show ?thesis
    proof (cases "t < xs ! mid")
      case less: True
      have above: "\<forall>i. mid \<le> i \<and> i < length xs \<longrightarrow> t < xs ! i"
      proof (intro allI impI)
        fix i assume i: "mid \<le> i \<and> i < length xs"
        with "1.prems"(1) have "xs ! mid \<le> xs ! i"
          by (simp add: sorted_iff_nth_mono)
        with less show "t < xs ! i" by simp
      qed
      from m "1.prems" have "mid \<le> length xs" by simp
      from "1.IH"(1) [OF True mid_def less "1.prems"(1) m(1) this "1.prems"(4) above]
      have "bisect_right xs t lo mid \<le> length xs
            \<and> (\<forall>i<bisect_right xs t lo mid. xs ! i \<le> t)
            \<and> (\<forall>i. bisect_right xs t lo mid \<le> i \<and> i < length xs \<longrightarrow> t < xs ! i)" .
      moreover from True less have "bisect_right xs t lo hi = bisect_right xs t lo mid"
        by (subst bisect_right.simps) (simp add: mid_def Let_def)
      ultimately show ?thesis by simp
    next
      case geq: False
      have below: "\<forall>i<mid + 1. xs ! i \<le> t"
      proof (intro allI impI)
        fix i assume i: "i < mid + 1"
        from m "1.prems" have "mid < length xs" by simp
        with i "1.prems"(1) have "xs ! i \<le> xs ! mid"
          by (simp add: sorted_iff_nth_mono)
        with geq show "xs ! i \<le> t" by simp
      qed
      from m have "mid + 1 \<le> hi" by simp
      from "1.IH"(2) [OF True mid_def geq "1.prems"(1) this "1.prems"(3) below "1.prems"(5)]
      have "bisect_right xs t (mid + 1) hi \<le> length xs
            \<and> (\<forall>i<bisect_right xs t (mid + 1) hi. xs ! i \<le> t)
            \<and> (\<forall>i. bisect_right xs t (mid + 1) hi \<le> i \<and> i < length xs \<longrightarrow> t < xs ! i)" .
      moreover from True geq have "bisect_right xs t lo hi = bisect_right xs t (mid + 1) hi"
        by (subst bisect_right.simps) (simp add: mid_def Let_def)
      ultimately show ?thesis by simp
    qed
  qed
qed

lemma bisect_right_whole:
  assumes "sorted xs"
  shows "bisect_right xs t 0 (length xs) \<le> length xs
       \<and> (\<forall>i<bisect_right xs t 0 (length xs). xs ! i \<le> t)
       \<and> (\<forall>i. bisect_right xs t 0 (length xs) \<le> i \<and> i < length xs \<longrightarrow> t < xs ! i)"
  by (rule bisect_right_bounds [OF assms]) auto

lemma bisect_right_created_at:
  fixes seq :: "publication list" and t :: timestamp
  assumes "sorted (map created_at seq)"
  defines "r \<equiv> bisect_right (map created_at seq) t 0 (length seq)"
  shows "r \<le> length seq"
    and "\<And>i. i < r \<Longrightarrow> created_at (seq ! i) \<le> t"
    and "\<And>i. r \<le> i \<Longrightarrow> i < length seq \<Longrightarrow> t < created_at (seq ! i)"
proof -
  let ?xs = "map created_at seq"
  have len: "length ?xs = length seq" by simp
  note w = bisect_right_whole [OF assms(1), of t, unfolded len, folded r_def]
  from w show r: "r \<le> length seq" by blast
  show "created_at (seq ! i) \<le> t" if "i < r" for i
  proof -
    from w that have "?xs ! i \<le> t" by blast
    moreover from that r have "i < length seq" by simp
    ultimately show ?thesis by simp
  qed
  show "t < created_at (seq ! i)" if "r \<le> i" "i < length seq" for i
  proof -
    from w that have "t < ?xs ! i" by blast
    with that show ?thesis by simp
  qed
qed

lemma latest_at_or_before_None:
  assumes "sorted (map created_at seq)"
    and "latest_at_or_before seq t = None"
    and "p \<in> set seq"
  shows "t < created_at p"
proof -
  from assms(2) have z: "bisect_right (map created_at seq) t 0 (length seq) = 0"
    by (simp add: latest_at_or_before_def Let_def split: if_splits)
  from assms(3) obtain i where i: "i < length seq" "seq ! i = p"
    by (auto simp: in_set_conv_nth)
  from bisect_right_created_at(3) [OF assms(1), of t i] z i show ?thesis by simp
qed

lemma latest_at_or_before_Some:
  assumes "sorted (map created_at seq)"
    and "latest_at_or_before seq t = Some p"
  shows "p \<in> set seq \<and> created_at p \<le> t
       \<and> (\<forall>q \<in> set seq. created_at q \<le> t \<longrightarrow> created_at q \<le> created_at p)"
proof -
  let ?r = "bisect_right (map created_at seq) t 0 (length seq)"
  note r = bisect_right_created_at(1) [OF assms(1), of t]
  from assms(2) have pos: "0 < ?r" and p: "p = seq ! (?r - 1)"
    by (auto simp: latest_at_or_before_def Let_def split: if_splits)
  from pos r have in_range: "?r - 1 < length seq" by simp
  then have mem: "p \<in> set seq" by (simp add: p)
  from pos have "?r - 1 < ?r" by simp
  from bisect_right_created_at(2) [OF assms(1) this] have le: "created_at p \<le> t"
    by (simp add: p)
  have "created_at q \<le> created_at p" if q: "q \<in> set seq" "created_at q \<le> t" for q
  proof -
    from q(1) obtain i where i: "i < length seq" "seq ! i = q"
      by (auto simp: in_set_conv_nth)
    have "i < ?r"
    proof (rule ccontr)
      assume "\<not> i < ?r"
      then have "?r \<le> i" by simp
      from bisect_right_created_at(3) [OF assms(1) this i(1)] i(2) q(2)
      show False by simp
    qed
    then have "i \<le> ?r - 1" by simp
    with assms(1) in_range have "map created_at seq ! i \<le> map created_at seq ! (?r - 1)"
      by (simp add: sorted_iff_nth_mono del: nth_map)
    with i in_range show ?thesis by (simp add: p)
  qed
  with mem le show ?thesis by blast
qed

lemma checkpoint_sequence_sorted: "sorted (map created_at (checkpoint_sequence pubs repo))"
  by (simp add: checkpoint_sequence_def)

lemma set_checkpoint_sequence:
  "set (checkpoint_sequence pubs repo)
     = {p \<in> set pubs. checkpoint p \<and> pub_repository p = repo}"
  by (auto simp: checkpoint_sequence_def)

lemma set_checkpoint_sequence_of:
  "set (checkpoint_sequence pubs (dist_repository dist)) = set (checkpoints_of dist pubs)"
  by (simp add: checkpoint_sequence_def checkpoints_of_def)

lemma resolve_valid:
  assumes "valid_timestamp t"
  shows "resolve dist pubs (format_timestamp t) now =
     (if now < t then NotFound
      else (case latest_at_or_before (checkpoint_sequence pubs (dist_repository dist)) t of
              None \<Rightarrow> NotFound
            | Some p \<Rightarrow>
                if created_at p = t then Serve p
                else Redirect (canonical_url dist p) p))"
  by (simp add: resolve_def parse_format_timestamp [OF assms])

lemma checkpoint_get_timestamp_path:
  assumes "dist_checkpoint dist"
  shows "checkpoint_get dist pubs (base_path dist @ format_timestamp t @ ''/'') now
           = Resolved (resolve dist pubs (format_timestamp t) now)"
proof -
  obtain y mo d h mi s where t: "t = (y, mo, d, h, mi, s)" by (cases t) auto
  have ne: "format_timestamp t \<noteq> []" by (simp add: t)
  let ?p = "base_path dist @ format_timestamp t @ ''/''"
  have w: "with_trailing_slash ?p = ?p" by (simp add: with_trailing_slash_def)
  have neq: "?p \<noteq> base_path dist" using ne by simp
  have bl: "butlast (format_timestamp t @ ''/'') = format_timestamp t"
    by (simp add: butlast_append)
  show ?thesis
    by (simp only: checkpoint_get_def w Let_def assms neq bl) simp
qed

lemma with_trailing_slash_base:
  assumes "path = b @ ''/'' \<or> (path = b \<and> (b = [] \<or> last b \<noteq> CHR ''/''))"
  shows "with_trailing_slash path = b @ ''/''"
  using assms by (auto simp: with_trailing_slash_def)

lemma example_checkpoints:
  "checkpoints_of example_distribution example_publications
     = [example_pub 11 True, example_pub 13 True]"
  by (simp add: checkpoints_of_def example_distribution_def example_publications_def
        example_pub_def)

lemma example_format:
  "format_timestamp (2025, 3, 9, 12, 0, 10) = ''20250309T120010Z''"
  "format_timestamp (2025, 3, 9, 12, 0, 11) = ''20250309T120011Z''"
  "format_timestamp (2025, 3, 9, 12, 0, 13) = ''20250309T120013Z''"
  "format_timestamp (2025, 3, 9, 12, 0, 14) = ''20250309T120014Z''"
  "format_timestamp (2025, 3, 11, 0, 0, 0) = ''20250311T000000Z''"
  by (simp_all add: pad2_def pad4_def digit_char_def)

subsection \<open>Resolution\<close>

text \<open>
  C1. Let the checkpoint publications of a distribution's repository be the two created
  at \<open>T1 < T2\<close>, and let a publication that is not a checkpoint have been created at
  \<open>T3\<close>, after \<open>T2\<close> and not after now. Resolving a timestamp \<open>t\<close> with
  \<open>T2 \<le> t < T3\<close> gives the checkpoint of \<open>T2\<close> (served directly when \<open>t = T2\<close>, by its
  canonical URL otherwise); resolving a \<open>t\<close> before \<open>T1\<close> gives NotFound; resolving a
  \<open>t\<close> after now gives NotFound.
\<close>

theorem resolve_between_checkpoints:
  assumes "set (checkpoints_of dist pubs) = {p1, p2}"
    and "created_at p1 < created_at p2"
    and "p3 \<in> set pubs" and "\<not> checkpoint p3"
    and "created_at p2 < created_at p3" and "created_at p3 \<le> now"
    and "valid_timestamp t"
  shows "(created_at p2 \<le> t \<and> t < created_at p3
            \<longrightarrow> resolve dist pubs (format_timestamp t) now
                  = (if t = created_at p2 then Serve p2
                     else Redirect (canonical_url dist p2) p2))
       \<and> (t < created_at p1 \<longrightarrow> resolve dist pubs (format_timestamp t) now = NotFound)
       \<and> (now < t \<longrightarrow> resolve dist pubs (format_timestamp t) now = NotFound)"
proof (intro conjI impI)
  let ?seq = "checkpoint_sequence pubs (dist_repository dist)"
  have srt: "sorted (map created_at ?seq)" by (rule checkpoint_sequence_sorted)
  have mem: "set ?seq = {p1, p2}"
    using assms(1) by (simp add: set_checkpoint_sequence_of)
  {
    assume a0: "created_at p2 \<le> t \<and> t < created_at p3"
    then have a: "created_at p2 \<le> t" and a': "t < created_at p3" by simp_all
    from a' assms(6) have nf: "\<not> now < t" by order
    have "latest_at_or_before ?seq t = Some p2"
    proof (cases "latest_at_or_before ?seq t")
      case None
      from mem have "p2 \<in> set ?seq" by simp
      from latest_at_or_before_None [OF srt None this] a have False by order
      then show ?thesis ..
    next
      case (Some p)
      from mem have "p2 \<in> set ?seq" by simp
      with latest_at_or_before_Some [OF srt Some] a mem
      have p: "p = p1 \<or> p = p2" and "created_at p2 \<le> created_at p"
        by auto
      with assms(2) have "p \<noteq> p1" by (auto simp: not_le [symmetric])
      with p have "p = p2" by simp
      with Some show ?thesis by simp
    qed
    with nf show "resolve dist pubs (format_timestamp t) now
                  = (if t = created_at p2 then Serve p2
                     else Redirect (canonical_url dist p2) p2)"
      by (auto simp: resolve_valid [OF assms(7)])
  }
  {
    assume b: "t < created_at p1"
    have "latest_at_or_before ?seq t = None"
    proof (cases "latest_at_or_before ?seq t")
      case None
      then show ?thesis .
    next
      case (Some p)
      from latest_at_or_before_Some [OF srt Some] mem
      have p: "p = p1 \<or> p = p2" and le: "created_at p \<le> t" by auto
      from le b have "created_at p < created_at p1" by order
      moreover from this assms(2) have "created_at p < created_at p2" by order
      ultimately have False using p by auto
      then show ?thesis ..
    qed
    then show "resolve dist pubs (format_timestamp t) now = NotFound"
      by (simp add: resolve_valid [OF assms(7)])
  }
  {
    assume "now < t"
    then show "resolve dist pubs (format_timestamp t) now = NotFound"
      by (simp add: resolve_valid [OF assms(7)])
  }
qed

theorem resolve_between_checkpoints_witness:
  "resolve example_distribution example_publications ''20250309T120014Z'' example_now
     = Redirect ''pulp/content/checkpoints/20250309T120013Z/'' (example_pub 13 True)
   \<and> resolve example_distribution example_publications ''20250309T120013Z'' example_now
     = Serve (example_pub 13 True)
   \<and> resolve example_distribution example_publications ''20250309T120010Z'' example_now
     = NotFound
   \<and> resolve example_distribution example_publications ''20250311T000000Z'' example_now
     = NotFound"
proof -
  let ?p1 = "example_pub 11 True" and ?p2 = "example_pub 13 True" and ?p3 = "example_pub 15 False"
  have h1: "set (checkpoints_of example_distribution example_publications) = {?p1, ?p2}"
    by (simp add: example_checkpoints)
  have h2: "created_at ?p1 < created_at ?p2" by (simp add: example_pub_def)
  have h3: "?p3 \<in> set example_publications" by (simp add: example_publications_def)
  have h4: "\<not> checkpoint ?p3" by (simp add: example_pub_def)
  have h5: "created_at ?p2 < created_at ?p3" by (simp add: example_pub_def)
  have h6: "created_at ?p3 \<le> example_now" by (simp add: example_pub_def example_now_def)
  note rb = resolve_between_checkpoints [OF h1 h2 h3 h4 h5 h6]
  have v: "valid_timestamp (2025, 3, 9, 12, 0, 14)" "valid_timestamp (2025, 3, 9, 12, 0, 13)"
    "valid_timestamp (2025, 3, 9, 12, 0, 10)" "valid_timestamp (2025, 3, 11, 0, 0, 0)"
    by (simp_all add: days_in_month_def)
  have a: "created_at ?p2 \<le> (2025, 3, 9, 12, 0, 14) \<and> (2025, 3, 9, 12, 0, 14) < created_at ?p3"
    and a': "created_at ?p2 \<le> (2025, 3, 9, 12, 0, 13) \<and> (2025, 3, 9, 12, 0, 13) < created_at ?p3"
    and b: "(2025, 3, 9, 12, 0, 10) < created_at ?p1"
    and c: "example_now < (2025, 3, 11, 0, 0, 0)"
    by (simp_all add: example_pub_def example_now_def)
  have u: "canonical_url example_distribution ?p2 = ''pulp/content/checkpoints/20250309T120013Z/''"
    by (simp add: canonical_url_def example_distribution_def example_pub_def
          pad2_def pad4_def digit_char_def)
  have ne: "(2025, 3, 9, 12, 0, 14) \<noteq> created_at ?p2" "(2025, 3, 9, 12, 0, 13) = created_at ?p2"
    by (simp_all add: example_pub_def)
  from rb [OF v(1)] a ne(1)
  have r1: "resolve example_distribution example_publications
              (format_timestamp (2025, 3, 9, 12, 0, 14)) example_now
            = Redirect (canonical_url example_distribution ?p2) ?p2"
    by simp
  from rb [OF v(2)] a' ne(2)
  have r2: "resolve example_distribution example_publications
              (format_timestamp (2025, 3, 9, 12, 0, 13)) example_now = Serve ?p2"
    by simp
  from rb [OF v(3)] b
  have r3: "resolve example_distribution example_publications
              (format_timestamp (2025, 3, 9, 12, 0, 10)) example_now = NotFound"
    by blast
  from rb [OF v(4)] c
  have r4: "resolve example_distribution example_publications
              (format_timestamp (2025, 3, 11, 0, 0, 0)) example_now = NotFound"
    by blast
  from r1 r2 r3 r4 show ?thesis
    by (simp only: example_format u)
qed

text \<open>
  C7. Resolving the formatted \<open>created_at\<close> of a checkpoint publication serves that
  publication directly, without a redirect to another canonical URL; so does a GET of
  its canonical URL on a checkpoint distribution. The publication was created at or
  before now, and no other checkpoint of the repository carries its timestamp (the
  checkpoints' timestamps are strictly increasing).
\<close>

theorem exact_checkpoint_timestamp_served:
  assumes "p \<in> set (checkpoints_of dist pubs)"
    and "valid_timestamp (created_at p)"
    and "created_at p \<le> now"
    and "\<forall>q \<in> set (checkpoints_of dist pubs). created_at q = created_at p \<longrightarrow> q = p"
  shows "resolve dist pubs (format_timestamp (created_at p)) now = Serve p
       \<and> (dist_checkpoint dist
            \<longrightarrow> checkpoint_get dist pubs (canonical_url dist p) now = Resolved (Serve p))"
proof -
  let ?seq = "checkpoint_sequence pubs (dist_repository dist)"
  let ?t = "created_at p"
  have srt: "sorted (map created_at ?seq)" by (rule checkpoint_sequence_sorted)
  have mem: "set ?seq = set (checkpoints_of dist pubs)" by (rule set_checkpoint_sequence_of)
  from assms(3) have nf: "\<not> now < ?t" by order
  have "latest_at_or_before ?seq ?t = Some p"
  proof (cases "latest_at_or_before ?seq ?t")
    case None
    from latest_at_or_before_None [OF srt None, of p] mem assms(1) show ?thesis by simp
  next
    case (Some r)
    from latest_at_or_before_Some [OF srt Some] mem assms(1)
    have r: "r \<in> set (checkpoints_of dist pubs)" and "created_at r \<le> ?t"
      and "?t \<le> created_at r"
      by auto
    then have "created_at r = ?t" by order
    with assms(4) r have "r = p" by blast
    with Some show ?thesis by simp
  qed
  with nf have one: "resolve dist pubs (format_timestamp ?t) now = Serve p"
    by (simp add: resolve_valid [OF assms(2)])
  from checkpoint_get_timestamp_path [of dist pubs ?t now] one
  show ?thesis by (simp add: canonical_url_def)
qed

theorem exact_checkpoint_timestamp_served_witness:
  "resolve example_distribution example_publications ''20250309T120011Z'' example_now
     = Serve (example_pub 11 True)
   \<and> checkpoint_get example_distribution example_publications
       ''pulp/content/checkpoints/20250309T120011Z/'' example_now
     = Resolved (Serve (example_pub 11 True))"
proof -
  let ?p = "example_pub 11 True"
  have h1: "?p \<in> set (checkpoints_of example_distribution example_publications)"
    by (simp add: example_checkpoints)
  have h2: "valid_timestamp (created_at ?p)"
    by (simp add: example_pub_def days_in_month_def)
  have h3: "created_at ?p \<le> example_now"
    by (simp add: example_pub_def example_now_def)
  have h4: "\<forall>q \<in> set (checkpoints_of example_distribution example_publications).
              created_at q = created_at ?p \<longrightarrow> q = ?p"
    by (simp add: example_checkpoints example_pub_def)
  have f: "format_timestamp (created_at ?p) = ''20250309T120011Z''"
    by (simp add: example_pub_def pad2_def pad4_def digit_char_def)
  have u: "canonical_url example_distribution ?p = ''pulp/content/checkpoints/20250309T120011Z/''"
    by (simp add: canonical_url_def f) (simp add: example_distribution_def)
  have d: "dist_checkpoint example_distribution" by (simp add: example_distribution_def)
  from exact_checkpoint_timestamp_served [OF h1 h2 h3 h4] d
  show ?thesis by (simp only: f u)
qed

text \<open>
  C4. A GET of the base path of a checkpoint distribution, with its trailing slash or
  without it, answers with a listing whose entries are exactly the formatted timestamps
  of the repository's checkpoint publications, the oldest and the newest among them. The
  timestamp of a publication that is not a checkpoint is not listed (timestamps are
  those of the calendar, and no checkpoint carries the same one).
\<close>

theorem base_path_lists_checkpoints:
  assumes "dist_checkpoint dist"
    and "base_path dist = b @ ''/''"
    and "path = b @ ''/'' \<or> (path = b \<and> (b = [] \<or> last b \<noteq> CHR ''/''))"
  shows "\<exists>l. checkpoint_get dist pubs path now = Listing l
           \<and> set l = (\<lambda>p. format_timestamp (created_at p)) ` set (checkpoints_of dist pubs)
           \<and> (\<forall>q \<in> set pubs.
                 \<not> checkpoint q
                 \<and> (\<forall>p \<in> set pubs. valid_timestamp (created_at p))
                 \<and> (\<forall>p \<in> set (checkpoints_of dist pubs). created_at p \<noteq> created_at q)
                 \<longrightarrow> format_timestamp (created_at q) \<notin> set l)"
proof -
  let ?l = "map (\<lambda>c. format_timestamp (created_at c))
              (checkpoint_sequence pubs (dist_repository dist))"
  from with_trailing_slash_base [OF assms(3)] assms(1,2)
  have g: "checkpoint_get dist pubs path now = Listing ?l"
    by (simp add: checkpoint_get_def Let_def)
  have s: "set ?l = (\<lambda>p. format_timestamp (created_at p)) ` set (checkpoints_of dist pubs)"
    by (simp add: set_checkpoint_sequence_of)
  have n: "format_timestamp (created_at q) \<notin> set ?l"
    if q: "q \<in> set pubs" "\<forall>p \<in> set pubs. valid_timestamp (created_at p)"
      "\<forall>p \<in> set (checkpoints_of dist pubs). created_at p \<noteq> created_at q" for q
  proof
    assume "format_timestamp (created_at q) \<in> set ?l"
    with s obtain p where p: "p \<in> set (checkpoints_of dist pubs)"
      "format_timestamp (created_at q) = format_timestamp (created_at p)" by auto
    from p(1) have "p \<in> set pubs" by (simp add: checkpoints_of_def)
    with q(1,2) p(2) have "created_at q = created_at p"
      by (auto intro: format_timestamp_inj)
    with q(3) p(1) show False by auto
  qed
  from g s n show ?thesis by blast
qed

theorem base_path_lists_checkpoints_witness:
  "(\<exists>l. checkpoint_get example_distribution example_publications
            ''pulp/content/checkpoints/'' example_now = Listing l
        \<and> set l = {''20250309T120011Z'', ''20250309T120013Z''}
        \<and> ''20250309T120010Z'' \<notin> set l)
   \<and> (\<exists>l. checkpoint_get example_distribution example_publications
            ''pulp/content/checkpoints'' example_now = Listing l
        \<and> set l = {''20250309T120011Z'', ''20250309T120013Z''}
        \<and> ''20250309T120010Z'' \<notin> set l)"
proof -
  let ?b = "''pulp/content/checkpoints''"
  have d: "dist_checkpoint example_distribution" by (simp add: example_distribution_def)
  have bp: "base_path example_distribution = ?b @ ''/''" by (simp add: example_distribution_def)
  have p1: "?b @ ''/'' = ?b @ ''/'' \<or> (?b @ ''/'' = ?b \<and> (?b = [] \<or> last ?b \<noteq> CHR ''/''))"
    by simp
  have p2: "?b = ?b @ ''/'' \<or> (?b = ?b \<and> (?b = [] \<or> last ?b \<noteq> CHR ''/''))"
    by simp
  have img: "(\<lambda>p. format_timestamp (created_at p))
               ` set (checkpoints_of example_distribution example_publications)
             = {''20250309T120011Z'', ''20250309T120013Z''}"
    by (simp add: example_checkpoints example_pub_def pad2_def pad4_def digit_char_def)
  have q: "example_pub 10 False \<in> set example_publications"
    by (simp add: example_publications_def)
  have qh: "\<not> checkpoint (example_pub 10 False)
            \<and> (\<forall>p \<in> set example_publications. valid_timestamp (created_at p))
            \<and> (\<forall>p \<in> set (checkpoints_of example_distribution example_publications).
                  created_at p \<noteq> created_at (example_pub 10 False))"
  proof (intro conjI)
    show "\<not> checkpoint (example_pub 10 False)" by (simp add: example_pub_def)
    show "\<forall>p \<in> set example_publications. valid_timestamp (created_at p)"
      by (simp add: example_publications_def example_pub_def days_in_month_def)
    show "\<forall>p \<in> set (checkpoints_of example_distribution example_publications).
            created_at p \<noteq> created_at (example_pub 10 False)"
      by (simp add: example_checkpoints example_pub_def)
  qed
  have qf: "format_timestamp (created_at (example_pub 10 False)) = ''20250309T120010Z''"
    by (simp add: example_pub_def pad2_def pad4_def digit_char_def)
  from base_path_lists_checkpoints [OF d bp p1, of example_publications example_now]
  obtain l where l: "checkpoint_get example_distribution example_publications (?b @ ''/'')
                       example_now = Listing l"
    "set l = (\<lambda>p. format_timestamp (created_at p))
               ` set (checkpoints_of example_distribution example_publications)"
    "\<forall>q \<in> set example_publications.
                 \<not> checkpoint q
                 \<and> (\<forall>p \<in> set example_publications. valid_timestamp (created_at p))
                 \<and> (\<forall>p \<in> set (checkpoints_of example_distribution example_publications).
                       created_at p \<noteq> created_at q)
                 \<longrightarrow> format_timestamp (created_at q) \<notin> set l"
    by blast
  from l(3) q qh have "format_timestamp (created_at (example_pub 10 False)) \<notin> set l" by blast
  with l(1,2) have one: "\<exists>l. checkpoint_get example_distribution example_publications
            ''pulp/content/checkpoints/'' example_now = Listing l
        \<and> set l = {''20250309T120011Z'', ''20250309T120013Z''}
        \<and> ''20250309T120010Z'' \<notin> set l"
    by (simp add: img qf)
  from base_path_lists_checkpoints [OF d bp p2, of example_publications example_now]
  obtain m where m: "checkpoint_get example_distribution example_publications ?b
                       example_now = Listing m"
    "set m = (\<lambda>p. format_timestamp (created_at p))
               ` set (checkpoints_of example_distribution example_publications)"
    "\<forall>q \<in> set example_publications.
                 \<not> checkpoint q
                 \<and> (\<forall>p \<in> set example_publications. valid_timestamp (created_at p))
                 \<and> (\<forall>p \<in> set (checkpoints_of example_distribution example_publications).
                       created_at p \<noteq> created_at q)
                 \<longrightarrow> format_timestamp (created_at q) \<notin> set m"
    by blast
  from m(3) q qh have "format_timestamp (created_at (example_pub 10 False)) \<notin> set m" by blast
  with m(1,2) have two: "\<exists>l. checkpoint_get example_distribution example_publications
            ''pulp/content/checkpoints'' example_now = Listing l
        \<and> set l = {''20250309T120011Z'', ''20250309T120013Z''}
        \<and> ''20250309T120010Z'' \<notin> set l"
    by (simp add: img qf)
  from one two show ?thesis by blast
qed

end
